theory Spec2Isabelle
  imports Main "HOL-Library.Sublist"
begin

section \<open>Python strings and paths\<close>

text \<open>
  The deployment tool of \<^verbatim>\<open>src/main.py\<close> is a sequence of remote commands, file
  transfers, console interaction and local file operations. A Python string is the list of
  the bytes of its UTF-8 encoding; the few \<^verbatim>\<open>str\<close> and \<^verbatim>\<open>os.path\<close> functions the
  program calls are written out on these bytes, for POSIX paths (\<^verbatim>\<open>os.sep\<close> is \<^verbatim>\<open>/\<close>).
\<close>

definition sq :: string where
  "sq = [CHR 0x27]"

definition dq :: string where
  "dq = [CHR 0x22]"

text \<open>
  The characters \<^verbatim>\<open>str.strip()\<close> removes, each as its UTF-8 bytes: the ASCII white space
  (9 to 13, 28 to 32), U+0085, U+00A0, U+1680, U+2000 to U+200A, U+2028, U+2029, U+202F,
  U+205F and U+3000.
\<close>

definition py_whitespace :: "string list" where
  "py_whitespace =
     [[CHR 0x09], [CHR 0x0A], [CHR 0x0B], [CHR 0x0C], [CHR 0x0D],
      [CHR 0x1C], [CHR 0x1D], [CHR 0x1E], [CHR 0x1F], [CHR 0x20],
      [CHR 0xC2, CHR 0x85], [CHR 0xC2, CHR 0xA0], [CHR 0xE1, CHR 0x9A, CHR 0x80],
      [CHR 0xE2, CHR 0x80, CHR 0x80], [CHR 0xE2, CHR 0x80, CHR 0x81],
      [CHR 0xE2, CHR 0x80, CHR 0x82], [CHR 0xE2, CHR 0x80, CHR 0x83],
      [CHR 0xE2, CHR 0x80, CHR 0x84], [CHR 0xE2, CHR 0x80, CHR 0x85],
      [CHR 0xE2, CHR 0x80, CHR 0x86], [CHR 0xE2, CHR 0x80, CHR 0x87],
      [CHR 0xE2, CHR 0x80, CHR 0x88], [CHR 0xE2, CHR 0x80, CHR 0x89],
      [CHR 0xE2, CHR 0x80, CHR 0x8A], [CHR 0xE2, CHR 0x80, CHR 0xA8],
      [CHR 0xE2, CHR 0x80, CHR 0xA9], [CHR 0xE2, CHR 0x80, CHR 0xAF],
      [CHR 0xE2, CHR 0x81, CHR 0x9F], [CHR 0xE3, CHR 0x80, CHR 0x80]]"

text \<open>\<open>strip_leading\<close> removes, as long as there is one, a leading byte sequence of the
  list. A string ends with a character exactly when its bytes end with the bytes of that
  character, so that the trailing white space is the leading one of the reversed bytes.\<close>

function strip_leading :: "string list \<Rightarrow> string \<Rightarrow> string" where
  "strip_leading encodings s =
     (case find (\<lambda>e. e \<noteq> [] \<and> prefix e s) encodings of
        Some e \<Rightarrow> strip_leading encodings (drop (length e) s)
      | None \<Rightarrow> s)"
  by pat_completeness auto
termination
proof (relation "measure (\<lambda>(encodings, s). length s)")
  show "wf (measure (\<lambda>(encodings, s). length s))" by simp
next
  fix encodings :: "string list" and s e :: string
  assume "find (\<lambda>e. e \<noteq> [] \<and> prefix e s) encodings = Some e"
  then have "e \<noteq> []" and "prefix e s"
    by (auto simp: find_Some_iff)
  then have "s \<noteq> []" by auto
  with \<open>e \<noteq> []\<close> show "((encodings, drop (length e) s), (encodings, s))
          \<in> measure (\<lambda>(encodings, s). length s)"
    by simp
qed

definition py_strip :: "string \<Rightarrow> string" where
  "py_strip s =
     rev (strip_leading (map rev py_whitespace) (rev (strip_leading py_whitespace s)))"

text \<open>\<open>py_lower\<close> lowers the ASCII capital letters. \<^verbatim>\<open>str.lower()\<close> also changes letters
  beyond ASCII; the program uses the result only to compare it, stripped, with \<^verbatim>\<open>y\<close>,
  and no character other than \<^verbatim>\<open>Y\<close> and \<^verbatim>\<open>y\<close> has the lower case \<^verbatim>\<open>y\<close>.\<close>

definition py_lower_char :: "char \<Rightarrow> char" where
  "py_lower_char c =
     (if 65 \<le> (of_char c :: nat) \<and> (of_char c :: nat) \<le> 90
      then char_of (of_char c + (32 :: nat)) else c)"

definition py_lower :: "string \<Rightarrow> string" where
  "py_lower s = map py_lower_char s"

definition py_rstrip_chars :: "string \<Rightarrow> string \<Rightarrow> string" where
  "py_rstrip_chars s chars = rev (dropWhile (\<lambda>c. c \<in> set chars) (rev s))"

text \<open>\<^verbatim>\<open>s.replace(old, '')\<close>: every non-overlapping occurrence of \<open>old\<close>, found from
  the left, is removed; an empty \<open>old\<close> leaves the string as it is.\<close>

function py_remove_all :: "string \<Rightarrow> string \<Rightarrow> string" where
  "py_remove_all old [] = []"
| "py_remove_all old (c # cs) =
     (if old \<noteq> [] \<and> prefix old (c # cs)
      then py_remove_all old (drop (length old) (c # cs))
      else c # py_remove_all old cs)"
  by pat_completeness auto
termination
  by (relation "measure (\<lambda>(old, s). length s)") (auto simp: Suc_le_eq)

definition digit_char :: "nat \<Rightarrow> char" where
  "digit_char d = char_of (48 + d)"

fun str_nat :: "nat \<Rightarrow> string" where
  "str_nat n = (if n < 10 then [digit_char n] else str_nat (n div 10) @ [digit_char (n mod 10)])"

definition str_int :: "int \<Rightarrow> string" where
  "str_int i = (if i < 0 then CHR ''-'' # str_nat (nat (- i)) else str_nat (nat i))"

definition os_path_join :: "string \<Rightarrow> string \<Rightarrow> string" where
  "os_path_join a b =
     (if b \<noteq> [] \<and> hd b = CHR ''/'' then b
      else if a = [] \<or> last a = CHR ''/'' then a @ b
      else a @ ''/'' @ b)"

definition os_path_basename :: "string \<Rightarrow> string" where
  "os_path_basename p = rev (takeWhile (\<lambda>c. c \<noteq> CHR ''/'') (rev p))"

definition os_path_dirname :: "string \<Rightarrow> string" where
  "os_path_dirname p =
     (let head = rev (dropWhile (\<lambda>c. c \<noteq> CHR ''/'') (rev p))
      in if head \<noteq> [] \<and> head \<noteq> replicate (length head) (CHR ''/'')
         then py_rstrip_chars head ''/'' else head)"

section \<open>Exceptions, command results, the session and the environment\<close>

text \<open>A Python exception (an instance of a subclass of \<^verbatim>\<open>Exception\<close>): its class
  name and the text \<^verbatim>\<open>str(e)\<close> gives.\<close>

datatype exn = Exn (exn_class: string) (exn_msg: string)

record CommandResult =
  returncode :: int
  stdout :: string
  stderr :: string

text \<open>A handle field of the manager: \<^verbatim>\<open>None\<close>, a client object that is not connected
  yet, an open handle, a closed one.\<close>

datatype handle = Absent | Fresh | Live | Shut

record DeploymentManager =
  server_host :: string
  server_user :: string
  server_password :: string
  temp_dir :: "string option"
  ssh :: handle
  sftp :: handle
  env_dir :: string

text \<open>What the program does to the remote host, and to the local machine, in order.\<close>

datatype rop =
    Connect string string string
  | OpenSftp
  | Exec string
  | Put string string
  | CloseSftp
  | CloseSsh

datatype lop =
    Makedirs string
  | WriteText string string
  | ReadText string
  | Mkdtemp string
  | GitClone string string string
  | Rmtree string
  | Chmod string
  | Remove string
  | Sleep nat

text \<open>
  The environment answers every external call. The remote side answers as a function of
  everything the program has done to it so far (\<open>rop list\<close>), so that the same command may
  fail once and succeed later. The local file system is read as it is after the clone; the
  files the program itself writes (\<^verbatim>\<open>run_script.sh\<close>, \<^verbatim>\<open><name>.env\<close>) are not among
  those it later tests for existence. \<open>rmtree_errors i\<close> lists the paths at which the
  \<open>i\<close>-th \<^verbatim>\<open>shutil.rmtree\<close> call meets an error and calls its \<^verbatim>\<open>onerror\<close> handler.
\<close>

record world =
  ssh_connect :: "rop list \<Rightarrow> string \<Rightarrow> string \<Rightarrow> string \<Rightarrow> exn option"
  open_sftp :: "rop list \<Rightarrow> exn option"
  exec_command :: "rop list \<Rightarrow> string \<Rightarrow> exn + CommandResult"
  sftp_put :: "rop list \<Rightarrow> string \<Rightarrow> string \<Rightarrow> exn option"
  path_exists :: "string \<Rightarrow> bool"
  os_walk :: "string \<Rightarrow> (string \<times> string list) list"
  relpath :: "string \<Rightarrow> string \<Rightarrow> string"
  read_text :: "string \<Rightarrow> exn + string"
  write_text :: "string \<Rightarrow> string \<Rightarrow> exn option"
  makedirs :: "string \<Rightarrow> exn option"
  expanduser :: "string \<Rightarrow> string"
  getpass :: "exn + string"
  mkdtemp :: "exn + string"
  git_clone :: "string \<Rightarrow> string \<Rightarrow> string \<Rightarrow> exn option"
  rmtree_errors :: "nat \<Rightarrow> string list"
  chmod_writable :: "nat \<Rightarrow> string \<Rightarrow> exn option"
  remove_again :: "nat \<Rightarrow> string \<Rightarrow> exn option"

text \<open>The console and the two logs of effects. \<open>out\<close> holds the texts written to
  standard output, one entry per \<^verbatim>\<open>print\<close> call or prompt (the newline \<^verbatim>\<open>print\<close>
  adds is left out); \<open>stdin\<close> holds the lines the operator will type, and reading past
  them raises \<^verbatim>\<open>EOFError\<close>.\<close>

record io =
  out :: "string list"
  rlog :: "rop list"
  llog :: "lop list"
  stdin :: "string list"

definition io0 :: "string list \<Rightarrow> io" where
  "io0 lines = \<lparr>out = [], rlog = [], llog = [], stdin = lines\<rparr>"

definition print :: "string \<Rightarrow> io \<Rightarrow> io" where
  "print msg s = s\<lparr>out := out s @ [msg]\<rparr>"

definition remote :: "rop \<Rightarrow> io \<Rightarrow> io" where
  "remote e s = s\<lparr>rlog := rlog s @ [e]\<rparr>"

definition local_op :: "lop \<Rightarrow> io \<Rightarrow> io" where
  "local_op e s = s\<lparr>llog := llog s @ [e]\<rparr>"

definition eof_error :: exn where
  "eof_error = Exn ''EOFError'' ''EOF when reading a line''"

definition input :: "string \<Rightarrow> io \<Rightarrow> (exn + string) \<times> io" where
  "input prompt s =
     (case stdin s of
        [] \<Rightarrow> (Inl eof_error, print prompt s)
      | l # ls \<Rightarrow> (Inr l, (print prompt s)\<lparr>stdin := ls\<rparr>))"

definition none_has_no :: "string \<Rightarrow> exn" where
  "none_has_no attr =
     Exn ''AttributeError'' (sq @ ''NoneType'' @ sq @ '' object has no attribute '' @ sq @ attr @ sq)"

section \<open>Connection manager\<close>

definition run_remote_command ::
  "world \<Rightarrow> DeploymentManager \<Rightarrow> string \<Rightarrow> io \<Rightarrow> (exn + CommandResult) \<times> io" where
  "run_remote_command w self command s =
     (if ssh self = Absent then (Inl (none_has_no ''exec_command''), s)
      else (exec_command w (rlog s) command, remote (Exec command) s))"

text \<open>The body of the \<^verbatim>\<open>try\<close> block of \<open>upload_file\<close>, then the function with its
  \<^verbatim>\<open>except Exception\<close> handler.\<close>

definition upload_file_try ::
  "world \<Rightarrow> DeploymentManager \<Rightarrow> string \<Rightarrow> string \<Rightarrow> io \<Rightarrow> (exn + bool) \<times> io" where
  "upload_file_try w self local_path remote_path s =
     (let remote_dir = os_path_dirname remote_path in
      case run_remote_command w self (''mkdir -p '' @ remote_dir) s of
        (Inl e, s1) \<Rightarrow> (Inl e, s1)
      | (Inr _, s1) \<Rightarrow>
          if sftp self = Absent then (Inl (none_has_no ''put''), s1)
          else (case sftp_put w (rlog s1) local_path remote_path of
                  Some e \<Rightarrow> (Inl e, remote (Put local_path remote_path) s1)
                | None \<Rightarrow> (Inr True, remote (Put local_path remote_path) s1)))"

definition upload_file ::
  "world \<Rightarrow> DeploymentManager \<Rightarrow> string \<Rightarrow> string \<Rightarrow> io \<Rightarrow> (exn + bool) \<times> io" where
  "upload_file w self local_path remote_path s =
     (case upload_file_try w self local_path remote_path s of
        (Inl e, s1) \<Rightarrow>
          (Inr False, print (''Failed to upload '' @ local_path @ '': '' @ exn_msg e) s1)
      | (Inr b, s1) \<Rightarrow> (Inr b, s1))"

section \<open>Secrets handler\<close>

fun py_join :: "string \<Rightarrow> string list \<Rightarrow> string" where
  "py_join sep [] = []"
| "py_join sep [x] = x"
| "py_join sep (x # y # ys) = x @ sep @ py_join sep (y # ys)"

text \<open>The \<^verbatim>\<open>while True\<close> loop of \<open>handle_env_file\<close>: lines are read (with no prompt) and
  stripped until an empty one; the function returns the lines collected and the input left.\<close>

fun read_env_contents :: "string list \<Rightarrow> string list \<Rightarrow> (exn + string list) \<times> string list" where
  "read_env_contents env_contents [] = (Inl eof_error, [])"
| "read_env_contents env_contents (l # ls) =
     (let line = py_strip l in
      if line = [] then (Inr env_contents, ls)
      else read_env_contents (env_contents @ [line]) ls)"

definition env_file_path_of :: "DeploymentManager \<Rightarrow> string \<Rightarrow> string" where
  "env_file_path_of self script_name = os_path_join (env_dir self) (script_name @ ''.env'')"

definition remote_env_path_of :: "string \<Rightarrow> string" where
  "remote_env_path_of script_name = ''/opt/'' @ script_name @ ''/.env''"

definition handle_env_file ::
  "world \<Rightarrow> DeploymentManager \<Rightarrow> string \<Rightarrow> string \<Rightarrow> io \<Rightarrow> (exn + bool) \<times> io" where
  "handle_env_file w self script_name remote_script_path s =
     (let env_file_path = env_file_path_of self script_name in
      if path_exists w env_file_path then
        upload_file w self env_file_path (remote_env_path_of script_name)
          (print (''Found .env file for '' @ script_name) s)
      else
        (case input ''Would you like to create one now? (y/n): ''
                (print (''No .env file found for '' @ script_name @ '' at '' @ env_file_path) s) of
           (Inl e, s1) \<Rightarrow> (Inl e, s1)
         | (Inr answer, s1) \<Rightarrow>
             let create_env = py_strip (py_lower answer) in
             if create_env = ''y'' then
               (case makedirs w (env_dir self) of
                  Some e \<Rightarrow> (Inl e, local_op (Makedirs (env_dir self)) s1)
                | None \<Rightarrow>
                    let s2 = print ''Press Enter twice when done''
                               (print ''Format: KEY=VALUE''
                                 (print ''Enter your environment variables (one per line)''
                                   (local_op (Makedirs (env_dir self)) s1))) in
                    (case read_env_contents [] (stdin s2) of
                       (Inl e, rest) \<Rightarrow> (Inl e, s2\<lparr>stdin := rest\<rparr>)
                     | (Inr env_contents, rest) \<Rightarrow>
                         let text = py_join ''\<newline>'' env_contents;
                             s3 = local_op (WriteText env_file_path text) (s2\<lparr>stdin := rest\<rparr>) in
                         (case write_text w env_file_path text of
                            Some e \<Rightarrow> (Inl e, s3)
                          | None \<Rightarrow>
                              upload_file w self env_file_path (remote_env_path_of script_name)
                                (print (''Created .env file at '' @ env_file_path) s3))))
             else (Inr True, s1)))"

section \<open>Remote provisioner\<close>

text \<open>
  \<open>deploy_script\<close> is one long function of early returns. Each block of it (the blocks
  its comments name) is a step here: a step either falls through to the next block
  (\<open>Next\<close>), makes the function return a value, or raises.
\<close>

datatype 'a outcome = Next | Return 'a | Raise exn

definition create_dir_cmd :: "DeploymentManager \<Rightarrow> string \<Rightarrow> string" where
  "create_dir_cmd self script_name =
     ''echo '' @ sq @ server_password self @ sq @ '' | sudo -S mkdir -p /opt/'' @ script_name"

definition chown_cmd :: "DeploymentManager \<Rightarrow> string \<Rightarrow> string" where
  "chown_cmd self script_name =
     ''echo '' @ sq @ server_password self @ sq @ '' | sudo -S chown '' @ server_user self @ '':''
       @ server_user self @ '' /opt/'' @ script_name"

definition print_result :: "string \<Rightarrow> CommandResult \<Rightarrow> io \<Rightarrow> io" where
  "print_result what result s =
     print (''stderr: '' @ stderr result)
       (print (''stdout: '' @ stdout result)
         (print (what @ '' result - returncode: '' @ str_int (returncode result)) s))"

definition create_directory :: "world \<Rightarrow> DeploymentManager \<Rightarrow> string \<Rightarrow> io \<Rightarrow> bool outcome \<times> io" where
  "create_directory w self script_name s =
     (let cmd = create_dir_cmd self script_name in
      case run_remote_command w self cmd (print (''Creating directory with command: '' @ cmd) s) of
        (Inl e, s1) \<Rightarrow> (Raise e, s1)
      | (Inr result, s1) \<Rightarrow>
          let s2 = print_result ''Create directory'' result s1 in
          if returncode result \<noteq> 0
          then (Return False, print (''Failed to create directory: '' @ stderr result) s2)
          else (Next, s2))"

definition set_permissions :: "world \<Rightarrow> DeploymentManager \<Rightarrow> string \<Rightarrow> io \<Rightarrow> bool outcome \<times> io" where
  "set_permissions w self script_name s =
     (let cmd = chown_cmd self script_name in
      case run_remote_command w self cmd (print (''Setting permissions with command: '' @ cmd) s) of
        (Inl e, s1) \<Rightarrow> (Raise e, s1)
      | (Inr result, s1) \<Rightarrow>
          let s2 = print_result ''Set permissions'' result s1 in
          if returncode result \<noteq> 0
          then (Return False, print (''Failed to set permissions: '' @ stderr result) s2)
          else (Next, s2))"

text \<open>The two nested loops over \<^verbatim>\<open>os.walk(script_path)\<close>: the files of one directory,
  then the directories.\<close>

fun copy_dir_files ::
  "world \<Rightarrow> DeploymentManager \<Rightarrow> string \<Rightarrow> string \<Rightarrow> string \<Rightarrow> string list \<Rightarrow> io
     \<Rightarrow> bool outcome \<times> io" where
  "copy_dir_files w self script_path script_name root [] s = (Next, s)"
| "copy_dir_files w self script_path script_name root (file # files) s =
     (let local_path = os_path_join root file;
          relative_path = relpath w local_path script_path;
          remote_path = ''/opt/'' @ script_name @ ''/'' @ relative_path in
      case upload_file w self local_path remote_path s of
        (Inl e, s1) \<Rightarrow> (Raise e, s1)
      | (Inr ok, s1) \<Rightarrow>
          if \<not> ok then (Return False, s1)
          else copy_dir_files w self script_path script_name root files s1)"

fun copy_tree ::
  "world \<Rightarrow> DeploymentManager \<Rightarrow> string \<Rightarrow> string \<Rightarrow> (string \<times> string list) list \<Rightarrow> io
     \<Rightarrow> bool outcome \<times> io" where
  "copy_tree w self script_path script_name [] s = (Next, s)"
| "copy_tree w self script_path script_name ((root, files) # dirs) s =
     (case copy_dir_files w self script_path script_name root files s of
        (Next, s1) \<Rightarrow> copy_tree w self script_path script_name dirs s1
      | (Return b, s1) \<Rightarrow> (Return b, s1)
      | (Raise e, s1) \<Rightarrow> (Raise e, s1))"

definition copy_files :: "world \<Rightarrow> DeploymentManager \<Rightarrow> string \<Rightarrow> string \<Rightarrow> io \<Rightarrow> bool outcome \<times> io" where
  "copy_files w self script_path script_name s =
     copy_tree w self script_path script_name (os_walk w script_path) s"

definition env_step :: "world \<Rightarrow> DeploymentManager \<Rightarrow> string \<Rightarrow> string \<Rightarrow> io \<Rightarrow> bool outcome \<times> io" where
  "env_step w self script_path script_name s =
     (case handle_env_file w self script_name script_path s of
        (Inl e, s1) \<Rightarrow> (Raise e, s1)
      | (Inr ok, s1) \<Rightarrow> if \<not> ok then (Return False, s1) else (Next, s1))"

definition venv_cmd :: "string \<Rightarrow> string" where
  "venv_cmd script_name =
     py_join '' && ''
       [''cd /opt/'' @ script_name,
        ''python3.12 -m venv venv'',
        ''source venv/bin/activate'',
        ''pip install --upgrade pip'',
        ''pip install -r requirements.txt'']"

definition runner_script :: "string \<Rightarrow> string" where
  "runner_script script_name =
     ''#!/usr/bin/bash\<newline>''
     @ ''            # Set the PATH variable to include the default system paths\<newline>''
     @ ''            export PATH=/usr/local/sbin:/usr/local/bin:/usr/sbin:/usr/bin:/sbin:/bin\<newline>''
     @ ''\<newline>''
     @ ''            # Full path to the Python interpreter and log file\<newline>''
     @ ''            PYTHON_INTERPRETER='' @ dq @ ''/opt/'' @ script_name @ ''/venv/bin/python3'' @ dq @ ''\<newline>''
     @ ''\<newline>''
     @ ''            # Create logs directory if it doesn'' @ sq @ ''t exist\<newline>''
     @ ''            mkdir -p /opt/'' @ script_name @ ''/logs\<newline>''
     @ ''\<newline>''
     @ ''            # Run the Python script within the virtual environment and log output\<newline>''
     @ ''            cd /opt/'' @ script_name @ ''\<newline>''
     @ ''            source venv/bin/activate\<newline>''
     @ ''            $PYTHON_INTERPRETER /opt/'' @ script_name @ ''/main.py &\<newline>''
     @ ''            ''"

definition remote_runner_path_of :: "string \<Rightarrow> string" where
  "remote_runner_path_of script_name = ''/opt/'' @ script_name @ ''/run_script.sh''"

definition chmod_cmd :: "string \<Rightarrow> string" where
  "chmod_cmd script_name = ''chmod +x /opt/'' @ script_name @ ''/run_script.sh''"

definition dos2unix_cmd :: "string \<Rightarrow> string" where
  "dos2unix_cmd script_name = ''dos2unix /opt/'' @ script_name @ ''/run_script.sh''"

definition install_cmd :: "DeploymentManager \<Rightarrow> string" where
  "install_cmd self =
     ''echo '' @ sq @ server_password self @ sq @ '' | sudo -S apt-get update && echo '' @ sq
       @ server_password self @ sq @ '' | sudo -S apt-get install -y dos2unix''"

text \<open>The loop \<^verbatim>\<open>for cmd in setup_commands\<close>, with the fallback for a failing command
  whose text contains \<^verbatim>\<open>dos2unix\<close>.\<close>

fun run_setup_commands ::
  "world \<Rightarrow> DeploymentManager \<Rightarrow> string list \<Rightarrow> io \<Rightarrow> bool outcome \<times> io" where
  "run_setup_commands w self [] s = (Next, s)"
| "run_setup_commands w self (cmd # cmds) s =
     (case run_remote_command w self cmd s of
        (Inl e, s1) \<Rightarrow> (Raise e, s1)
      | (Inr result, s1) \<Rightarrow>
          if returncode result \<noteq> 0 then
            (let s2 = print (''Failed to execute '' @ cmd @ '': '' @ stderr result) s1 in
             if sublist ''dos2unix'' cmd then
               (case run_remote_command w self (install_cmd self)
                       (print ''Installing dos2unix...'' s2) of
                  (Inl e, s3) \<Rightarrow> (Raise e, s3)
                | (Inr installed, s3) \<Rightarrow>
                    if returncode installed = 0 then
                      (case run_remote_command w self cmd s3 of
                         (Inl e, s4) \<Rightarrow> (Raise e, s4)
                       | (Inr again, s4) \<Rightarrow>
                           if returncode again \<noteq> 0
                           then (Return False,
                                 print (''Failed to convert line endings: '' @ stderr again) s4)
                           else run_setup_commands w self cmds s4)
                    else run_setup_commands w self cmds s3)
             else (Return False, s2))
          else run_setup_commands w self cmds s1)"

text \<open>The block under \<^verbatim>\<open>if os.path.exists(os.path.join(script_path, 'requirements.txt'))\<close>:
  the virtual environment, then the runner script (written, uploaded, set up).\<close>

definition setup_environment ::
  "world \<Rightarrow> DeploymentManager \<Rightarrow> string \<Rightarrow> string \<Rightarrow> io \<Rightarrow> bool outcome \<times> io" where
  "setup_environment w self script_path script_name s =
     (if path_exists w (os_path_join script_path ''requirements.txt'') then
        (case run_remote_command w self (venv_cmd script_name) s of
           (Inl e, s1) \<Rightarrow> (Raise e, s1)
         | (Inr result, s1) \<Rightarrow>
             if returncode result \<noteq> 0
             then (Return False,
                   print (''Failed to set up virtual environment: '' @ stderr result) s1)
             else
               (let runner_path = os_path_join script_path ''run_script.sh'';
                    s2 = local_op (WriteText runner_path (runner_script script_name)) s1 in
                case write_text w runner_path (runner_script script_name) of
                  Some e \<Rightarrow> (Raise e, s2)
                | None \<Rightarrow>
                    (case upload_file w self runner_path (remote_runner_path_of script_name) s2 of
                       (Inl e, s3) \<Rightarrow> (Raise e, s3)
                     | (Inr ok, s3) \<Rightarrow>
                         if \<not> ok then (Return False, s3)
                         else run_setup_commands w self
                                [chmod_cmd script_name, dos2unix_cmd script_name] s3)))
      else (Next, s))"

definition cron_entry :: "string \<Rightarrow> string \<Rightarrow> string" where
  "cron_entry cron_schedule script_name =
     cron_schedule @ '' /opt/'' @ script_name @ ''/run_script.sh''"

definition cron_cmd :: "string \<Rightarrow> string \<Rightarrow> string" where
  "cron_cmd cron_schedule script_name =
     ''(crontab -l 2>/dev/null | grep -v '' @ dq @ script_name @ dq @ '' ; echo '' @ dq
       @ cron_entry cron_schedule script_name @ dq @ '') | crontab -''"

definition update_crontab ::
  "world \<Rightarrow> DeploymentManager \<Rightarrow> string \<Rightarrow> string \<Rightarrow> io \<Rightarrow> bool outcome \<times> io" where
  "update_crontab w self script_path script_name s =
     (let cron_path = os_path_join script_path ''cron.txt'' in
      if path_exists w cron_path then
        (case read_text w cron_path of
           Inl e \<Rightarrow> (Raise e, local_op (ReadText cron_path) s)
         | Inr content \<Rightarrow>
             let cron_schedule = py_strip content in
             (case run_remote_command w self (cron_cmd cron_schedule script_name)
                     (local_op (ReadText cron_path) s) of
                (Inl e, s1) \<Rightarrow> (Raise e, s1)
              | (Inr result, s1) \<Rightarrow>
                  if returncode result \<noteq> 0
                  then (Return False, print (''Failed to update crontab: '' @ stderr result) s1)
                  else (Next, s1)))
      else (Next, s))"

text \<open>Sequencing of two steps: the second runs only when the first falls through.\<close>

definition and_then ::
  "(io \<Rightarrow> bool outcome \<times> io) \<Rightarrow> (io \<Rightarrow> bool outcome \<times> io) \<Rightarrow> io \<Rightarrow> bool outcome \<times> io" where
  "and_then f g s =
     (case f s of
        (Next, s1) \<Rightarrow> g s1
      | (Return b, s1) \<Rightarrow> (Return b, s1)
      | (Raise e, s1) \<Rightarrow> (Raise e, s1))"

definition finish :: "string \<Rightarrow> bool outcome \<times> io \<Rightarrow> (exn + bool) \<times> io" where
  "finish script_name r =
     (case r of
        (Next, s) \<Rightarrow> (Inr True, print (''Successfully deployed '' @ script_name) s)
      | (Return b, s) \<Rightarrow> (Inr b, s)
      | (Raise e, s) \<Rightarrow> (Inl e, s))"

text \<open>The steps from the dependency manifest on (source lines 144 to 218).\<close>

definition provision_tail ::
  "world \<Rightarrow> DeploymentManager \<Rightarrow> string \<Rightarrow> string \<Rightarrow> io \<Rightarrow> bool outcome \<times> io" where
  "provision_tail w self script_path script_name =
     and_then (setup_environment w self script_path script_name)
              (update_crontab w self script_path script_name)"

definition deploy_script ::
  "world \<Rightarrow> DeploymentManager \<Rightarrow> string \<Rightarrow> string \<Rightarrow> io \<Rightarrow> (exn + bool) \<times> io" where
  "deploy_script w self script_path script_name s =
     finish script_name
       (and_then (create_directory w self script_name)
         (and_then (set_permissions w self script_name)
           (and_then (copy_files w self script_path script_name)
             (and_then (env_step w self script_path script_name)
               (provision_tail w self script_path script_name))))
          (print (''\<newline>Deploying '' @ script_name @ ''...'') s))"

text \<open>\<open>deploy_script\<close> with the secrets step (source lines 140 to 142) taken out; it is
  what the deployment is compared with where the secrets file is absent.\<close>

definition deploy_script_without_env ::
  "world \<Rightarrow> DeploymentManager \<Rightarrow> string \<Rightarrow> string \<Rightarrow> io \<Rightarrow> (exn + bool) \<times> io" where
  "deploy_script_without_env w self script_path script_name s =
     finish script_name
       (and_then (create_directory w self script_name)
         (and_then (set_permissions w self script_name)
           (and_then (copy_files w self script_path script_name)
             (provision_tail w self script_path script_name)))
          (print (''\<newline>Deploying '' @ script_name @ ''...'') s))"

section \<open>Session set-up, clone, clean-up and the driver\<close>

definition init_manager ::
  "world \<Rightarrow> string \<Rightarrow> string \<Rightarrow> string \<Rightarrow> string option \<Rightarrow> DeploymentManager" where
  "init_manager w host user password env_dir_arg =
     \<lparr>server_host = host, server_user = user, server_password = password,
      temp_dir = None, ssh = Absent, sftp = Absent,
      env_dir = (case env_dir_arg of
                   None \<Rightarrow> expanduser w ''~/.script_envs''
                 | Some d \<Rightarrow> if d = [] then expanduser w ''~/.script_envs'' else d)\<rparr>"

definition connect ::
  "world \<Rightarrow> DeploymentManager \<Rightarrow> io \<Rightarrow> (exn + unit) \<times> DeploymentManager \<times> io" where
  "connect w self s =
     (let s1 = remote (Connect (server_host self) (server_user self) (server_password self)) s in
      case ssh_connect w (rlog s) (server_host self) (server_user self) (server_password self) of
        Some e \<Rightarrow> (Inl e, self\<lparr>ssh := Fresh\<rparr>, s1)
      | None \<Rightarrow>
          (case open_sftp w (rlog s1) of
             Some e \<Rightarrow> (Inl e, self\<lparr>ssh := Live\<rparr>, remote OpenSftp s1)
           | None \<Rightarrow> (Inr (), self\<lparr>ssh := Live, sftp := Live\<rparr>, remote OpenSftp s1)))"

definition clone_repo ::
  "world \<Rightarrow> DeploymentManager \<Rightarrow> string \<Rightarrow> string \<Rightarrow> io
     \<Rightarrow> (exn + string) \<times> DeploymentManager \<times> io" where
  "clone_repo w self repo_url branch s =
     (case mkdtemp w of
        Inl e \<Rightarrow> (Inl e, self, s)
      | Inr dir \<Rightarrow>
          let self1 = self\<lparr>temp_dir := Some dir\<rparr>;
              s1 = local_op (GitClone repo_url branch dir) (local_op (Mkdtemp dir) s) in
          (case git_clone w repo_url branch dir of
             Some e \<Rightarrow> (Inl e, self1, s1)
           | None \<Rightarrow> (Inr dir, self1, s1)))"

definition verify_python_version ::
  "world \<Rightarrow> DeploymentManager \<Rightarrow> io \<Rightarrow> (exn + bool) \<times> io" where
  "verify_python_version w self s =
     (case run_remote_command w self ''command -v python3.12'' s of
        (Inl e, s1) \<Rightarrow> (Inl e, s1)
      | (Inr result, s1) \<Rightarrow>
          if returncode result \<noteq> 0
          then (Inl (Exn ''RuntimeError'' ''Python 3.12 is not installed on the remote server''), s1)
          else
            (case run_remote_command w self ''python3.12 --version'' s1 of
               (Inl e, s2) \<Rightarrow> (Inl e, s2)
             | (Inr result2, s2) \<Rightarrow>
                 if returncode result2 \<noteq> 0
                 then (Inl (Exn ''RuntimeError'' ''Failed to get Python version''), s2)
                 else (Inr True,
                       print (''Remote Python version: '' @ py_strip (stdout result2)) s2)))"

text \<open>\<open>force_remove_readonly\<close> is the \<^verbatim>\<open>onerror\<close> handler: it makes the path writable
  and calls the failed function again; an exception of either leaves \<^verbatim>\<open>rmtree\<close>.
  \<open>rmtree\<close> is one call of \<^verbatim>\<open>shutil.rmtree\<close> with that handler, the \<open>i\<close>-th of the
  clean-up.\<close>

definition force_remove_readonly :: "world \<Rightarrow> nat \<Rightarrow> string \<Rightarrow> io \<Rightarrow> exn option \<times> io" where
  "force_remove_readonly w i path s =
     (case chmod_writable w i path of
        Some e \<Rightarrow> (Some e, local_op (Chmod path) s)
      | None \<Rightarrow> (remove_again w i path, local_op (Remove path) (local_op (Chmod path) s)))"

fun rmtree_handle :: "world \<Rightarrow> nat \<Rightarrow> string list \<Rightarrow> io \<Rightarrow> exn option \<times> io" where
  "rmtree_handle w i [] s = (None, s)"
| "rmtree_handle w i (path # paths) s =
     (case force_remove_readonly w i path s of
        (Some e, s1) \<Rightarrow> (Some e, s1)
      | (None, s1) \<Rightarrow> rmtree_handle w i paths s1)"

definition rmtree :: "world \<Rightarrow> nat \<Rightarrow> string \<Rightarrow> io \<Rightarrow> exn option \<times> io" where
  "rmtree w i dir s = rmtree_handle w i (rmtree_errors w i) (local_op (Rmtree dir) s)"

text \<open>The loop \<^verbatim>\<open>for i in range(retry_count)\<close> of \<open>cleanup\<close>.\<close>

fun remove_temp_dir :: "world \<Rightarrow> string \<Rightarrow> nat \<Rightarrow> nat list \<Rightarrow> io \<Rightarrow> io" where
  "remove_temp_dir w dir retry_count [] s = s"
| "remove_temp_dir w dir retry_count (i # is) s =
     (case rmtree w i dir s of
        (None, s1) \<Rightarrow> s1
      | (Some e, s1) \<Rightarrow>
          if i = retry_count - 1
          then remove_temp_dir w dir retry_count is
                 (print ''You may need to manually delete it later''
                   (print (''Warning: Could not remove temporary directory '' @ dir) s1))
          else remove_temp_dir w dir retry_count is (local_op (Sleep 1) s1))"

definition close_handles :: "DeploymentManager \<Rightarrow> io \<Rightarrow> DeploymentManager \<times> io" where
  "close_handles self s =
     (let (self1, s1) = (if sftp self \<noteq> Absent
                         then (self\<lparr>sftp := Shut\<rparr>, remote CloseSftp s) else (self, s))
      in if ssh self1 \<noteq> Absent
         then (self1\<lparr>ssh := Shut\<rparr>, remote CloseSsh s1) else (self1, s1))"

definition cleanup :: "world \<Rightarrow> DeploymentManager \<Rightarrow> io \<Rightarrow> DeploymentManager \<times> io" where
  "cleanup w self s =
     (let (self1, s1) = close_handles self s in
      case temp_dir self1 of
        None \<Rightarrow> (self1, s1)
      | Some dir \<Rightarrow>
          if dir \<noteq> [] \<and> path_exists w dir
          then (self1, remove_temp_dir w dir 3 [0 ..< 3] s1)
          else (self1, s1))"

text \<open>The arguments after parsing, with \<^verbatim>\<open>--host\<close> and \<^verbatim>\<open>--user\<close> given.\<close>

record args =
  repo_url :: string
  host :: string
  user :: string
  branch :: string
  env_dir_arg :: "string option"

text \<open>The listing printed when the repository has no \<^verbatim>\<open>main.py\<close>.\<close>

fun print_files :: "string \<Rightarrow> string list \<Rightarrow> io \<Rightarrow> io" where
  "print_files subindent [] s = s"
| "print_files subindent (f # fs) s = print_files subindent fs (print (subindent @ f) s)"

fun print_structure :: "string \<Rightarrow> (string \<times> string list) list \<Rightarrow> io \<Rightarrow> io" where
  "print_structure repo_path [] s = s"
| "print_structure repo_path ((root, files) # dirs) s =
     (let level = count_list (py_remove_all repo_path root) (CHR ''/'');
          indent = replicate (4 * level) (CHR '' '');
          subindent = replicate (4 * (level + 1)) (CHR '' '')
      in print_structure repo_path dirs
           (print_files subindent files (print (indent @ os_path_basename root @ ''/'') s)))"

definition deploy_or_list ::
  "world \<Rightarrow> args \<Rightarrow> DeploymentManager \<Rightarrow> string \<Rightarrow> io \<Rightarrow> (exn + unit) \<times> io" where
  "deploy_or_list w a deployer repo_path s =
     (if path_exists w (os_path_join repo_path ''main.py'') then
        (let repo_name = os_path_basename (py_rstrip_chars (repo_url a) ''.git'') in
         case deploy_script w deployer repo_path repo_name
                (print (''Found main.py in repository root. Using repo name: '' @ repo_name) s) of
           (Inl e, s1) \<Rightarrow> (Inl e, s1)
         | (Inr ok, s1) \<Rightarrow>
             if \<not> ok then (Inl (Exn ''Exception'' ''Deployment failed''), print ''Deployment failed!'' s1)
             else (Inr (), s1))
      else (Inr (), print_structure repo_path (os_walk w repo_path)
                      (print ''Repository structure:''
                        (print ''No main.py found in repository root!'' s))))"

text \<open>The body of the \<^verbatim>\<open>try\<close> block of \<open>main\<close>; it returns the manager as it is when
  the block is left.\<close>

definition main_try ::
  "world \<Rightarrow> args \<Rightarrow> string \<Rightarrow> io \<Rightarrow> (exn + unit) \<times> DeploymentManager \<times> io" where
  "main_try w a password s =
     (let deployer = init_manager w (host a) (user a) password (env_dir_arg a) in
      case connect w deployer
             (print ''Establishing SSH connection...''
               (print ''Initializing deployment manager...'' s)) of
        (Inl e, d1, s1) \<Rightarrow> (Inl e, d1, s1)
      | (Inr _, d1, s1) \<Rightarrow>
          (case verify_python_version w d1 (print ''Verifying Python version...'' s1) of
             (Inl e, s2) \<Rightarrow> (Inl e, d1, s2)
           | (Inr _, s2) \<Rightarrow>
               (case clone_repo w d1 (repo_url a) (branch a) (print ''Cloning repository...'' s2) of
                  (Inl e, d2, s3) \<Rightarrow> (Inl e, d2, s3)
                | (Inr repo_path, d2, s3) \<Rightarrow>
                    (case deploy_or_list w a d2 repo_path
                            (print ''Checking repository structure...''
                              (print (''Repository cloned to: '' @ repo_path) s3)) of
                       (r, s4) \<Rightarrow> (r, d2, s4)))))"

text \<open>\<open>main_run\<close> is \<open>main\<close> with the manager it leaves behind made visible: the handler
  of \<^verbatim>\<open>except Exception\<close> prints and re-raises, and \<^verbatim>\<open>finally\<close> cleans up. The
  password is read before the \<^verbatim>\<open>try\<close>, where no manager exists yet.\<close>

definition main_run ::
  "world \<Rightarrow> args \<Rightarrow> io \<Rightarrow> (exn + unit) \<times> DeploymentManager option \<times> io" where
  "main_run w a s =
     (case getpass w of
        Inl e \<Rightarrow> (Inl e, None, s)
      | Inr password \<Rightarrow>
          (case main_try w a password s of
             (r, deployer, s1) \<Rightarrow>
               let s2 = (case r of
                           Inl e \<Rightarrow> print (''An error occurred: '' @ exn_msg e) s1
                         | Inr _ \<Rightarrow> s1) in
               (case cleanup w deployer s2 of
                  (deployer1, s3) \<Rightarrow> (r, Some deployer1, s3))))"

definition main :: "world \<Rightarrow> args \<Rightarrow> io \<Rightarrow> (exn + unit) \<times> io" where
  "main w a s = (case main_run w a s of (r, d, s1) \<Rightarrow> (r, s1))"

section \<open>Example environments\<close>

text \<open>Concrete managers and environments on which the theorems below are run.\<close>

definition result_ok :: CommandResult where
  "result_ok = \<lparr>returncode = 0, stdout = [], stderr = []\<rparr>"

definition result_failed :: "int \<Rightarrow> CommandResult" where
  "result_failed rc = \<lparr>returncode = rc, stdout = [], stderr = ''error''\<rparr>"

definition world_calm :: world where
  "world_calm =
     \<lparr>ssh_connect = (\<lambda>h a b c. None), open_sftp = (\<lambda>h. None),
      exec_command = (\<lambda>h c. Inr result_ok), sftp_put = (\<lambda>h l r. None),
      path_exists = (\<lambda>p. False), os_walk = (\<lambda>p. []),
      relpath = (\<lambda>p b. drop (length b + 1) p),
      read_text = (\<lambda>p. Inl (Exn ''FileNotFoundError'' p)), write_text = (\<lambda>p c. None),
      makedirs = (\<lambda>p. None), expanduser = (\<lambda>p. ''/home/op'' @ drop 1 p),
      getpass = Inr ''hunter2'', mkdtemp = Inr ''/tmp/ab'', git_clone = (\<lambda>u b d. None),
      rmtree_errors = (\<lambda>i. []), chmod_writable = (\<lambda>i p. None),
      remove_again = (\<lambda>i p. None)\<rparr>"

definition manager_live :: DeploymentManager where
  "manager_live =
     \<lparr>server_host = ''10.0.0.4'', server_user = ''scada'', server_password = ''hunter2'',
      temp_dir = Some ''/tmp/ab'', ssh = Live, sftp = Live, env_dir = ''/home/op/.script_envs''\<rparr>"

definition world_mkdir_denied :: world where
  "world_mkdir_denied = world_calm\<lparr>exec_command := (\<lambda>h c. Inr (result_failed 1))\<rparr>"

definition world_chown_denied :: world where
  "world_chown_denied =
     world_calm\<lparr>exec_command := (\<lambda>h c. if h = [] then Inr result_ok else Inr (result_failed 1))\<rparr>"

definition world_put_refused :: world where
  "world_put_refused =
     world_calm\<lparr>sftp_put := (\<lambda>h l r. Some (Exn ''PermissionError'' ''Permission denied''))\<rparr>"

section \<open>Growth of the logs\<close>

text \<open>\<open>extends R L s s'\<close>: from \<open>s\<close> to \<open>s'\<close> the program has only added remote
  operations of \<open>R\<close>, local operations of \<open>L\<close> and output.\<close>

definition extends :: "rop set \<Rightarrow> lop set \<Rightarrow> io \<Rightarrow> io \<Rightarrow> bool" where
  "extends R L s s' =
     ((\<exists>d. rlog s' = rlog s @ d \<and> set d \<subseteq> R) \<and>
      (\<exists>e. llog s' = llog s @ e \<and> set e \<subseteq> L) \<and>
      (\<exists>m. out s' = out s @ m))"

text \<open>The local paths of the files \<^verbatim>\<open>os.walk\<close> lists below the source directory.\<close>

definition walk_files :: "world \<Rightarrow> string \<Rightarrow> string list" where
  "walk_files w script_path =
     concat (map (\<lambda>(root, files). map (os_path_join root) files) (os_walk w script_path))"

definition world_no_dos2unix :: world where
  "world_no_dos2unix =
     world_calm\<lparr>path_exists := (\<lambda>p. p = ''/tmp/ab/requirements.txt''),
       os_walk := (\<lambda>p. [(''/tmp/ab'', [''main.py'', ''requirements.txt''])]),
       exec_command := (\<lambda>h c. if c = dos2unix_cmd ''app'' then Inr (result_failed 127)
                              else if c = install_cmd manager_live then Inr (result_failed 100)
                              else Inr result_ok)\<rparr>"

section \<open>The two handles of the session\<close>

text \<open>The two handles agree when both are open or neither is. \<open>reachable\<close> are the states
  of a manager that the public operations lead to from a new manager, where a \<open>connect\<close>
  that raises is followed at once by \<open>cleanup\<close>, as in the driver.\<close>

definition handles_agree :: "DeploymentManager \<Rightarrow> bool" where
  "handles_agree self = ((ssh self = Live) = (sftp self = Live))"

inductive reachable :: "world \<Rightarrow> DeploymentManager \<Rightarrow> io \<Rightarrow> bool" for w :: world where
  created: "reachable w (init_manager w h u pw e) s"
| connected: "reachable w d s \<Longrightarrow> connect w d s = (Inr (), d', s') \<Longrightarrow> reachable w d' s'"
| connect_failed_cleaned:
    "reachable w d s \<Longrightarrow> connect w d s = (Inl e, d1, s1) \<Longrightarrow> cleanup w d1 s1 = (d', s')
       \<Longrightarrow> reachable w d' s'"
| cleaned: "reachable w d s \<Longrightarrow> cleanup w d s = (d', s') \<Longrightarrow> reachable w d' s'"
| cloned: "reachable w d s \<Longrightarrow> clone_repo w d url b s = (r, d', s') \<Longrightarrow> reachable w d' s'"
| ran: "reachable w d s \<Longrightarrow> run_remote_command w d c s = (rc, s') \<Longrightarrow> reachable w d s'"
| uploaded: "reachable w d s \<Longrightarrow> upload_file w d l rp s = (rb, s') \<Longrightarrow> reachable w d s'"
| verified: "reachable w d s \<Longrightarrow> verify_python_version w d s = (rb, s') \<Longrightarrow> reachable w d s'"
| secrets: "reachable w d s \<Longrightarrow> handle_env_file w d n p s = (rb, s') \<Longrightarrow> reachable w d s'"
| deployed: "reachable w d s \<Longrightarrow> deploy_script w d p n s = (rb, s') \<Longrightarrow> reachable w d s'"

definition world_no_sftp :: world where
  "world_no_sftp =
     world_calm\<lparr>open_sftp := (\<lambda>h. Some (Exn ''SSHException'' ''Channel closed.''))\<rparr>"

definition manager_new :: "world \<Rightarrow> DeploymentManager" where
  "manager_new w = init_manager w ''10.0.0.4'' ''scada'' ''hunter2'' None"



section \<open>Removal of the workspace\<close>

text \<open>An attempt to remove the workspace fails when, at one of the paths where
  \<^verbatim>\<open>rmtree\<close> meets an error, making the path writable or removing it again raises.
  \<open>fixups\<close> are the local operations of the handler on the paths it repairs.\<close>

definition attempt_fails :: "world \<Rightarrow> nat \<Rightarrow> bool" where
  "attempt_fails w i =
     list_ex (\<lambda>path. chmod_writable w i path \<noteq> None \<or> remove_again w i path \<noteq> None)
       (rmtree_errors w i)"

definition fixups :: "string list \<Rightarrow> lop list" where
  "fixups paths = concat (map (\<lambda>path. [Chmod path, Remove path]) paths)"

definition removal_warning :: "string \<Rightarrow> string list" where
  "removal_warning dir =
     [''Warning: Could not remove temporary directory '' @ dir,
      ''You may need to manually delete it later'']"

definition world_readonly_tree :: world where
  "world_readonly_tree =
     world_calm\<lparr>path_exists := (\<lambda>p. p = ''/tmp/ab''),
       rmtree_errors := (\<lambda>i. [''/tmp/ab/.git/objects/pack/p.idx'']),
       chmod_writable := (\<lambda>i p. if i < 1 then Some (Exn ''PermissionError'' ''Access is denied'')
                                 else None)\<rparr>"

definition args_app :: args where
  "args_app = \<lparr>repo_url = ''https://github.com/org/app.git'', host = ''10.0.0.4'',
                user = ''scada'', branch = ''master'', env_dir_arg = None\<rparr>"

section \<open>The listing of a repository\<close>

text \<open>The lines of the listing: for each directory of the walk its base name with a
  slash, indented by four spaces per level below the repository, then its files, one level
  deeper.\<close>

fun structure_lines :: "string \<Rightarrow> (string \<times> string list) list \<Rightarrow> string list" where
  "structure_lines repo_path [] = []"
| "structure_lines repo_path ((root, files) # dirs) =
     (replicate (4 * count_list (py_remove_all repo_path root) (CHR ''/'')) (CHR '' '')
        @ os_path_basename root @ ''/'')
     # map (\<lambda>f. replicate (4 * (count_list (py_remove_all repo_path root) (CHR ''/'') + 1)) (CHR '' '')
                 @ f) files
     @ structure_lines repo_path dirs"

definition world_bare_repo :: world where
  "world_bare_repo =
     world_calm\<lparr>os_walk := (\<lambda>p. [(''/tmp/ab'', [''README.md'']), (''/tmp/ab/src'', [''a.py''])]),
       exec_command := (\<lambda>h c. if c = ''python3.12 --version''
                              then Inr \<lparr>returncode = 0, stdout = ''Python 3.12.3\<newline>'', stderr = []\<rparr>
                              else Inr result_ok)\<rparr>"

section \<open>A source tree without a dependency manifest\<close>



definition world_plain_tree :: world where
  "world_plain_tree =
     world_calm\<lparr>os_walk := (\<lambda>p. [(''/tmp/ab'', [''main.py''])])\<rparr>"

section \<open>The remote crontab\<close>


definition quoted_plain :: "string \<Rightarrow> bool" where
  "quoted_plain t = list_all (\<lambda>c. c \<notin> set [CHR 0x22, CHR 0x24, CHR 0x60, CHR 0x5C]) t"




section \<open>Basic facts\<close>

lemma print_fields [simp]:
  "out (print m s) = out s @ [m]" "rlog (print m s) = rlog s"
  "llog (print m s) = llog s" "stdin (print m s) = stdin s"
  by (simp_all add: print_def)

lemma remote_fields [simp]:
  "out (remote e s) = out s" "rlog (remote e s) = rlog s @ [e]"
  "llog (remote e s) = llog s" "stdin (remote e s) = stdin s"
  by (simp_all add: remote_def)

lemma local_op_fields [simp]:
  "out (local_op e s) = out s" "rlog (local_op e s) = rlog s"
  "llog (local_op e s) = llog s @ [e]" "stdin (local_op e s) = stdin s"
  by (simp_all add: local_op_def)

lemma print_result_fields [simp]:
  "rlog (print_result what r s) = rlog s"
  "llog (print_result what r s) = llog s" "stdin (print_result what r s) = stdin s"
  by (simp_all add: print_result_def)

lemma run_remote_command_live:
  "ssh self \<noteq> Absent \<Longrightarrow>
   run_remote_command w self c s = (exec_command w (rlog s) c, remote (Exec c) s)"
  by (simp add: run_remote_command_def)

lemma password_in_create_dir_cmd:
  "sublist (server_password self) (''Creating directory with command: '' @ create_dir_cmd self n)"
  unfolding create_dir_cmd_def
  by (metis sublist_appendI append.assoc)

lemma out_grows_run: "run_remote_command w self c s = (r, s') \<Longrightarrow> out s' = out s"
  by (auto simp: run_remote_command_def split: if_splits)

lemma create_directory_prints_command:
  "create_directory w self n s = (r, s') \<Longrightarrow>
   \<exists>rest. out s' = out s @ (''Creating directory with command: '' @ create_dir_cmd self n) # rest"
  by (auto simp: create_directory_def Let_def print_result_def run_remote_command_def
      split: prod.splits sum.splits if_splits)

section \<open>Privileged steps\<close>

lemma and_then_Return:
  "f s = (Return b, s1) \<Longrightarrow> and_then f g s = (Return b, s1)"
  by (simp add: and_then_def)

lemma and_then_Next:
  "f s = (Next, s1) \<Longrightarrow> and_then f g s = g s1"
  by (simp add: and_then_def)

lemma and_then_Raise:
  "f s = (Raise e, s1) \<Longrightarrow> and_then f g s = (Raise e, s1)"
  by (simp add: and_then_def)

lemma create_directory_result:
  assumes "ssh self \<noteq> Absent" and "exec_command w (rlog s) (create_dir_cmd self n) = Inr r"
  shows "\<exists>s1. create_directory w self n s = (if returncode r \<noteq> 0 then Return False else Next, s1)
           \<and> rlog s1 = rlog s @ [Exec (create_dir_cmd self n)]
           \<and> llog s1 = llog s \<and> stdin s1 = stdin s"
  using assms by (simp add: create_directory_def run_remote_command_live Let_def)

lemma set_permissions_result:
  assumes "ssh self \<noteq> Absent" and "exec_command w (rlog s) (chown_cmd self n) = Inr r"
  shows "\<exists>s1. set_permissions w self n s = (if returncode r \<noteq> 0 then Return False else Next, s1)
           \<and> rlog s1 = rlog s @ [Exec (chown_cmd self n)]
           \<and> llog s1 = llog s \<and> stdin s1 = stdin s"
  using assms by (simp add: set_permissions_def run_remote_command_live Let_def)

text \<open>
  Claim C3. When the privileged directory creation, or (after it succeeded) the privileged
  ownership change, returns a non-zero exit code, \<open>deploy_script\<close> returns \<open>False\<close>; the
  only remote operations of the whole call are the one or two privileged commands: no
  upload and no later command follows, no local file is touched and no input is read.
\<close>

theorem privileged_failure_aborts:
  assumes live: "ssh self \<noteq> Absent"
    and mk: "exec_command w (rlog s) (create_dir_cmd self n) = Inr r1"
    and bad: "returncode r1 \<noteq> 0 \<or>
              (\<exists>r2. exec_command w (rlog s @ [Exec (create_dir_cmd self n)]) (chown_cmd self n) = Inr r2
                    \<and> returncode r2 \<noteq> 0)"
  shows "\<exists>s'. deploy_script w self p n s = (Inr False, s')
           \<and> rlog s' = rlog s @ (if returncode r1 \<noteq> 0
                                  then [Exec (create_dir_cmd self n)]
                                  else [Exec (create_dir_cmd self n), Exec (chown_cmd self n)])
           \<and> llog s' = llog s \<and> stdin s' = stdin s"
proof -
  let ?s0 = "print (''\<newline>Deploying '' @ n @ ''...'') s"
  from create_directory_result [OF live, of w ?s0 n r1] mk
  obtain s1 where c: "create_directory w self n ?s0 = (if returncode r1 \<noteq> 0 then Return False else Next, s1)"
    and l1: "rlog s1 = rlog s @ [Exec (create_dir_cmd self n)]" "llog s1 = llog s" "stdin s1 = stdin s"
    by auto
  show ?thesis
  proof (cases "returncode r1 \<noteq> 0")
    case True
    with c have "create_directory w self n ?s0 = (Return False, s1)" by simp
    then have "deploy_script w self p n s = (Inr False, s1)"
      by (simp add: deploy_script_def and_then_def finish_def)
    with True l1 show ?thesis by simp
  next
    case False
    with bad l1 obtain r2 where ch: "exec_command w (rlog s1) (chown_cmd self n) = Inr r2"
      and nz: "returncode r2 \<noteq> 0" by auto
    from set_permissions_result [OF live ch] nz
    obtain s2 where p: "set_permissions w self n s1 = (Return False, s2)"
      and l2: "rlog s2 = rlog s1 @ [Exec (chown_cmd self n)]" "llog s2 = llog s1" "stdin s2 = stdin s1"
      by auto
    from False c have "create_directory w self n ?s0 = (Next, s1)" by simp
    with p have "deploy_script w self p n s = (Inr False, s2)"
      by (simp add: deploy_script_def and_then_def finish_def)
    with False l1 l2 show ?thesis by simp
  qed
qed

lemma world_calm_exec [simp]: "exec_command world_calm h c = Inr result_ok"
  by (simp add: world_calm_def)

theorem privileged_failure_aborts_witness:
  "(\<exists>s'. deploy_script world_mkdir_denied manager_live ''/tmp/ab'' ''app'' (io0 []) = (Inr False, s')
      \<and> rlog s' = [Exec (create_dir_cmd manager_live ''app'')] \<and> llog s' = [] \<and> stdin s' = [])
   \<and> (\<exists>s'. deploy_script world_chown_denied manager_live ''/tmp/ab'' ''app'' (io0 []) = (Inr False, s')
      \<and> rlog s' = [Exec (create_dir_cmd manager_live ''app''), Exec (chown_cmd manager_live ''app'')]
      \<and> llog s' = [] \<and> stdin s' = [])"
  using privileged_failure_aborts [of manager_live world_mkdir_denied "io0 []" "''app''" "result_failed 1" "''/tmp/ab''"]
    privileged_failure_aborts [of manager_live world_chown_denied "io0 []" "''app''" "result_ok" "''/tmp/ab''"]
  by (simp add: world_mkdir_denied_def world_chown_denied_def manager_live_def io0_def
      result_failed_def result_ok_def world_calm_def)

section \<open>Growth of the logs: facts\<close>

lemma extends_refl [simp]: "extends R L s s"
  by (simp add: extends_def)

lemma extends_trans:
  assumes "extends R L s t" and "extends R L t u"
  shows "extends R L s u"
proof -
  from assms(1) obtain d e m where
    st: "rlog t = rlog s @ d" "set d \<subseteq> R" "llog t = llog s @ e" "set e \<subseteq> L" "out t = out s @ m"
    unfolding extends_def by blast
  from assms(2) obtain d' e' m' where
    tu: "rlog u = rlog t @ d'" "set d' \<subseteq> R" "llog u = llog t @ e'" "set e' \<subseteq> L"
      "out u = out t @ m'"
    unfolding extends_def by blast
  have "rlog u = rlog s @ (d @ d') \<and> set (d @ d') \<subseteq> R"
    using st(1,2) tu(1,2) by simp
  moreover have "llog u = llog s @ (e @ e') \<and> set (e @ e') \<subseteq> L"
    using st(3,4) tu(3,4) by simp
  moreover have "out u = out s @ (m @ m')"
    using st(5) tu(5) by simp
  ultimately show ?thesis
    unfolding extends_def by blast
qed

lemma extends_print [simp]: "extends R L s (print m s)"
  by (simp add: extends_def)

lemma extends_print_result [simp]: "extends R L s (print_result what r s)"
  by (simp add: extends_def print_result_def)

lemma extends_remote: "e \<in> R \<Longrightarrow> extends R L s (remote e s)"
  by (simp add: extends_def)

lemma extends_local_op: "e \<in> L \<Longrightarrow> extends R L s (local_op e s)"
  by (simp add: extends_def)

lemma extends_stdin [simp]: "extends R L s (s\<lparr>stdin := x\<rparr>)"
  by (simp add: extends_def)

lemma extends_then_print: "extends R L s t \<Longrightarrow> extends R L s (print m t)"
  by (erule extends_trans) simp

lemma extends_run:
  "Exec c \<in> R \<Longrightarrow> run_remote_command w self c s = (r, s') \<Longrightarrow> extends R L s s'"
  by (auto simp: run_remote_command_def extends_remote split: if_splits)

lemma extends_print_after: "extends R L s t \<Longrightarrow> extends R L s (print m t)"
  by (erule extends_trans) simp

lemma extends_print_result_after: "extends R L s t \<Longrightarrow> extends R L s (print_result what r t)"
  by (erule extends_trans) simp

lemma extends_remote_after: "e \<in> R \<Longrightarrow> extends R L s t \<Longrightarrow> extends R L s (remote e t)"
  by (erule extends_trans) (rule extends_remote)

lemma extends_local_op_after: "e \<in> L \<Longrightarrow> extends R L s t \<Longrightarrow> extends R L s (local_op e t)"
  by (erule extends_trans) (rule extends_local_op)

lemma extends_stdin_after: "extends R L s t \<Longrightarrow> extends R L s (t\<lparr>stdin := x\<rparr>)"
  by (erule extends_trans) simp

lemma extends_run_after:
  assumes "Exec c \<in> R" and "extends R L s t" and "run_remote_command w self c t = (r, s')"
  shows "extends R L s s'"
  using assms(2) extends_run [OF assms(1,3)] by (rule extends_trans)

lemma extends_upload_file_try:
  assumes "Exec (''mkdir -p '' @ os_path_dirname r) \<in> R" and "Put l r \<in> R"
    and "upload_file_try w self l r s = (x, s1)"
  shows "extends R L s s1"
proof (cases "run_remote_command w self (''mkdir -p '' @ os_path_dirname r) s")
  case (Pair y s0)
  have a: "extends R L s s0" using assms(1) Pair by (rule extends_run)
  have c: "extends R L s (remote (Put l r) s0)" using assms(2) a by (rule extends_remote_after)
  show ?thesis
  proof (cases y)
    case (Inl e)
    with assms(3) Pair a show ?thesis by (simp add: upload_file_try_def)
  next
    case (Inr res)
    with assms(3) Pair a c show ?thesis
      by (cases "sftp_put w (rlog s0) l r") (simp_all add: upload_file_try_def split: if_splits)
  qed
qed

lemma extends_upload_file:
  assumes "Exec (''mkdir -p '' @ os_path_dirname r) \<in> R" and "Put l r \<in> R"
    and "upload_file w self l r s = (b, s')"
  shows "extends R L s s'"
proof (cases "upload_file_try w self l r s")
  case (Pair x s1)
  have a: "extends R L s s1" using assms(1,2) Pair by (rule extends_upload_file_try)
  show ?thesis
  proof (cases x)
    case (Inl e)
    with Pair assms(3) extends_print_after [OF a] show ?thesis
      by (auto simp: upload_file_def)
  next
    case (Inr ok)
    with Pair assms(3) a show ?thesis by (simp add: upload_file_def)
  qed
qed

lemma extends_upload_file_after:
  assumes "Exec (''mkdir -p '' @ os_path_dirname r) \<in> R" and "Put l r \<in> R"
    and "extends R L s t" and "upload_file w self l r t = (b, s')"
  shows "extends R L s s'"
  using assms(3) extends_upload_file [OF assms(1,2,4)] by (rule extends_trans)

lemma upload_file_never_raises: "\<exists>b. fst (upload_file w self l r s) = Inr b"
  by (cases "upload_file_try w self l r s"; cases "fst (upload_file_try w self l r s)")
     (auto simp: upload_file_def)

section \<open>Upload\<close>

text \<open>
  Claim C7. \<open>upload_file\<close> never raises. With \<open>mk\<close> the command \<^verbatim>\<open>mkdir -p\<close> on the
  directory part of the remote path, it returns \<open>True\<close> exactly when both handles exist,
  running \<open>mk\<close> did not raise and the transfer that follows it completed; then the remote
  log has grown by \<open>mk\<close> and the transfer, in this order, and nothing was printed.
  Otherwise it returns \<open>False\<close> after printing a line \<^verbatim>\<open>Failed to upload\<close> with the
  local path and the text of the exception. The exit code of \<open>mk\<close> is not looked at.
\<close>

theorem upload_file_contract:
  "\<exists>b s'. upload_file w self l r s = (Inr b, s') \<and>
     (b = (ssh self \<noteq> Absent \<and> sftp self \<noteq> Absent
            \<and> (\<exists>res. exec_command w (rlog s) (''mkdir -p '' @ os_path_dirname r) = Inr res)
            \<and> sftp_put w (rlog s @ [Exec (''mkdir -p '' @ os_path_dirname r)]) l r = None)) \<and>
     (if b
      then rlog s' = rlog s @ [Exec (''mkdir -p '' @ os_path_dirname r), Put l r] \<and> out s' = out s
      else (\<exists>e. out s' = out s @ [''Failed to upload '' @ l @ '': '' @ exn_msg e]) \<and>
           (rlog s' = rlog s \<or> rlog s' = rlog s @ [Exec (''mkdir -p '' @ os_path_dirname r)]
            \<or> rlog s' = rlog s @ [Exec (''mkdir -p '' @ os_path_dirname r), Put l r])) \<and>
     llog s' = llog s \<and> stdin s' = stdin s"
proof (cases "ssh self = Absent")
  case True
  then show ?thesis
    by (auto simp: upload_file_def upload_file_try_def run_remote_command_def)
next
  case live: False
  show ?thesis
  proof (cases "exec_command w (rlog s) (''mkdir -p '' @ os_path_dirname r)")
    case (Inl e)
    with live show ?thesis
      by (auto simp: upload_file_def upload_file_try_def run_remote_command_def)
  next
    case (Inr res)
    show ?thesis
    proof (cases "sftp self = Absent")
      case True
      with live Inr show ?thesis
        by (auto simp: upload_file_def upload_file_try_def run_remote_command_def)
    next
      case False
      with live Inr show ?thesis
        by (cases "sftp_put w (rlog s @ [Exec (''mkdir -p '' @ os_path_dirname r)]) l r")
           (auto simp: upload_file_def upload_file_try_def run_remote_command_def)
    qed
  qed
qed

theorem upload_file_contract_witness:
  "upload_file world_calm manager_live ''/tmp/ab/main.py'' ''/opt/app/main.py'' (io0 [])
     = (Inr True, \<lparr>out = [], rlog = [Exec ''mkdir -p /opt/app'',
                                        Put ''/tmp/ab/main.py'' ''/opt/app/main.py''],
                   llog = [], stdin = []\<rparr>)
   \<and> upload_file world_put_refused manager_live ''/tmp/ab/main.py'' ''/opt/app/main.py'' (io0 [])
     = (Inr False, \<lparr>out = [''Failed to upload /tmp/ab/main.py: Permission denied''],
                    rlog = [Exec ''mkdir -p /opt/app'', Put ''/tmp/ab/main.py'' ''/opt/app/main.py''],
                    llog = [], stdin = []\<rparr>)"
  using upload_file_contract [of world_calm manager_live "''/tmp/ab/main.py''" "''/opt/app/main.py''" "io0 []"]
    upload_file_contract [of world_put_refused manager_live "''/tmp/ab/main.py''" "''/opt/app/main.py''" "io0 []"]
  by (simp add: upload_file_def upload_file_try_def run_remote_command_def world_calm_def
      world_put_refused_def manager_live_def io0_def os_path_dirname_def py_rstrip_chars_def
      remote_def print_def Let_def)

section \<open>Growth of the logs through the steps\<close>


lemma extends_set_permissions:
  assumes "Exec (chown_cmd self n) \<in> R" and "set_permissions w self n s = (r, s')"
  shows "extends R L s s'"
proof (cases "run_remote_command w self (chown_cmd self n)
                (print (''Setting permissions with command: '' @ chown_cmd self n) s)")
  case (Pair y s1)
  have a: "extends R L s s1"
    using assms(1) extends_print Pair by (rule extends_run_after)
  show ?thesis
  proof (cases y)
    case (Inl e)
    with Pair assms(2) a show ?thesis by (auto simp: set_permissions_def)
  next
    case (Inr res)
    with Pair assms(2) extends_print_result_after [OF a]
      extends_print_after [OF extends_print_result_after [OF a]]
    show ?thesis by (auto simp: set_permissions_def Let_def split: if_splits)
  qed
qed

lemma extends_and_then:
  assumes "\<And>r t. f s = (r, t) \<Longrightarrow> extends R L s t"
    and "\<And>s1 r t. f s = (Next, s1) \<Longrightarrow> g s1 = (r, t) \<Longrightarrow> extends R L s1 t"
    and "and_then f g s = (r, s')"
  shows "extends R L s s'"
proof (cases "f s")
  case (Pair y s1)
  have a: "extends R L s s1" using Pair by (rule assms(1))
  show ?thesis
  proof (cases y)
    case Next
    with Pair assms(3) have "g s1 = (r, s')" by (simp add: and_then_def)
    with Pair Next have "extends R L s1 s'" by (auto intro: assms(2))
    with a show ?thesis by (rule extends_trans)
  next
    case (Return b)
    with Pair assms(3) a show ?thesis by (simp add: and_then_def)
  next
    case (Raise e)
    with Pair assms(3) a show ?thesis by (simp add: and_then_def)
  qed
qed

lemma extends_copy_dir_files:
  assumes mk: "\<And>d. Exec (''mkdir -p '' @ d) \<in> R"
    and put: "\<And>f r. f \<in> set files \<Longrightarrow> Put (os_path_join root f) r \<in> R"
    and run: "copy_dir_files w self p n root files s = (r, s')"
  shows "extends R L s s'"
  using put run
proof (induction files arbitrary: s)
  case Nil
  then show ?case by simp
next
  case (Cons fl files)
  let ?l = "os_path_join root fl"
  let ?r = "''/opt/'' @ n @ ''/'' @ relpath w ?l p"
  obtain y s1 where u: "upload_file w self ?l ?r s = (y, s1)" by fastforce
  have a: "extends R L s s1"
    using mk Cons.prems(1) [of fl ?r] u by (auto intro: extends_upload_file)
  show ?case
  proof (cases y)
    case (Inl e)
    with u Cons.prems(2) a show ?thesis by (simp add: Let_def)
  next
    case (Inr ok)
    show ?thesis
    proof (cases ok)
      case False
      with Inr u Cons.prems(2) a show ?thesis by (simp add: Let_def)
    next
      case True
      with Inr u Cons.prems(2) have "copy_dir_files w self p n root files s1 = (r, s')"
        by (simp add: Let_def)
      then have "extends R L s1 s'"
        using Cons.prems(1) by (intro Cons.IH) auto
      with a show ?thesis by (rule extends_trans)
    qed
  qed
qed

lemma extends_copy_tree:
  assumes mk: "\<And>d. Exec (''mkdir -p '' @ d) \<in> R"
    and put: "\<And>root files f r. (root, files) \<in> set dirs \<Longrightarrow> f \<in> set files
                \<Longrightarrow> Put (os_path_join root f) r \<in> R"
    and run: "copy_tree w self p n dirs s = (r, s')"
  shows "extends R L s s'"
  using put run
proof (induction dirs arbitrary: s)
  case Nil
  then show ?case by simp
next
  case (Cons d dirs)
  obtain root files where d: "d = (root, files)" by (cases d)
  obtain y s1 where c: "copy_dir_files w self p n root files s = (y, s1)" by fastforce
  have a: "extends R L s s1"
    using mk _ c
  proof (rule extends_copy_dir_files)
    fix f r assume "f \<in> set files"
    then show "Put (os_path_join root f) r \<in> R"
      using Cons.prems(1) [of root files f r] d by simp
  qed
  show ?case
  proof (cases y)
    case Next
    with c d Cons.prems(2) have "copy_tree w self p n dirs s1 = (r, s')" by simp
    then have "extends R L s1 s'"
      using Cons.prems(1) by (intro Cons.IH) auto
    with a show ?thesis by (rule extends_trans)
  next
    case (Return b)
    with c d Cons.prems(2) a show ?thesis by simp
  next
    case (Raise e)
    with c d Cons.prems(2) a show ?thesis by simp
  qed
qed

lemma extends_copy_files:
  assumes "\<And>d. Exec (''mkdir -p '' @ d) \<in> R"
    and "\<And>l r. l \<in> set (walk_files w p) \<Longrightarrow> Put l r \<in> R"
    and "copy_files w self p n s = (r, s')"
  shows "extends R L s s'"
  using assms(1) _ assms(3) [unfolded copy_files_def]
proof (rule extends_copy_tree)
  fix root files f r
  assume "(root, files) \<in> set (os_walk w p)" and "f \<in> set files"
  then have "os_path_join root f \<in> set (walk_files w p)"
    by (force simp: walk_files_def)
  then show "Put (os_path_join root f) r \<in> R" by (rule assms(2))
qed

lemma extends_handle_env_file:
  assumes mk: "\<And>d. Exec (''mkdir -p '' @ d) \<in> R"
    and put: "Put (env_file_path_of self n) (remote_env_path_of n) \<in> R"
    and md: "Makedirs (env_dir self) \<in> L"
    and wr: "\<And>c. WriteText (env_file_path_of self n) c \<in> L"
    and run: "handle_env_file w self n p s = (r, s')"
  shows "extends R L s s'"
proof (cases "path_exists w (env_file_path_of self n)")
  case True
  with run have "upload_file w self (env_file_path_of self n) (remote_env_path_of n)
                   (print (''Found .env file for '' @ n) s) = (r, s')"
    by (simp add: handle_env_file_def)
  with mk put extends_print show ?thesis by (rule extends_upload_file_after)
next
  case absent: False
  define s0 where "s0 = print ''Would you like to create one now? (y/n): ''
     (print (''No .env file found for '' @ n @ '' at '' @ env_file_path_of self n) s)"
  have a0: "extends R L s s0"
    unfolding s0_def by (intro extends_print_after extends_refl)
  show ?thesis
  proof (cases "stdin s")
    case Nil
    with absent run a0 show ?thesis
      by (auto simp: handle_env_file_def input_def s0_def)
  next
    case (Cons answer rest)
    define s1 where "s1 = s0\<lparr>stdin := rest\<rparr>"
    have a1: "extends R L s s1"
      unfolding s1_def using a0 by (rule extends_stdin_after)
    show ?thesis
    proof (cases "py_strip (py_lower answer) = ''y''")
      case False
      with absent Cons run a1 show ?thesis
        by (auto simp: handle_env_file_def input_def s0_def s1_def)
    next
      case yes: True
      define s1' where "s1' = local_op (Makedirs (env_dir self)) s1"
      have a1': "extends R L s s1'"
        unfolding s1'_def using md a1 by (rule extends_local_op_after)
      show ?thesis
      proof (cases "makedirs w (env_dir self)")
        case (Some e)
        with absent Cons yes run a1' show ?thesis
          by (auto simp: handle_env_file_def input_def s0_def s1_def s1'_def)
      next
        case None
        define s2 where "s2 = print ''Press Enter twice when done''
                               (print ''Format: KEY=VALUE''
                                 (print ''Enter your environment variables (one per line)'' s1'))"
        have a2: "extends R L s s2"
          unfolding s2_def using a1' by (intro extends_print_after)
        have st2: "stdin s2 = rest"
          by (simp add: s2_def s1'_def s1_def)
        obtain x rest' where rd: "read_env_contents [] rest = (x, rest')" by fastforce
        note defs = handle_env_file_def input_def s0_def s1_def s1'_def s2_def Let_def
        show ?thesis
        proof (cases x)
          case (Inl e)
          with absent Cons yes None rd run extends_stdin_after [OF a2, of rest']
          show ?thesis by (auto simp: defs)
        next
          case (Inr env_contents)
          define s3 where "s3 = local_op (WriteText (env_file_path_of self n)
                                   (py_join ''\<newline>'' env_contents)) (s2\<lparr>stdin := rest'\<rparr>)"
          have a3: "extends R L s s3"
            unfolding s3_def using wr extends_stdin_after [OF a2] by (rule extends_local_op_after)
          show ?thesis
          proof (cases "write_text w (env_file_path_of self n) (py_join ''\<newline>'' env_contents)")
            case (Some e)
            with absent Cons yes None rd Inr run a3 show ?thesis
              by (auto simp: defs s3_def)
          next
            case wrote: None
            with absent Cons yes None rd Inr run
            have "upload_file w self (env_file_path_of self n) (remote_env_path_of n)
                  (print (''Created .env file at '' @ env_file_path_of self n) s3) = (r, s')"
              by (simp add: defs s3_def)
            with mk put extends_print_after [OF a3] show ?thesis
              by (rule extends_upload_file_after)
          qed
        qed
      qed
    qed
  qed
qed

lemma extends_env_step:
  assumes "\<And>d. Exec (''mkdir -p '' @ d) \<in> R"
    and "Put (env_file_path_of self n) (remote_env_path_of n) \<in> R"
    and "Makedirs (env_dir self) \<in> L"
    and "\<And>c. WriteText (env_file_path_of self n) c \<in> L"
    and "env_step w self p n s = (r, s')"
  shows "extends R L s s'"
proof (cases "handle_env_file w self n p s")
  case (Pair y s1)
  have "extends R L s s1" using assms(1-4) Pair by (rule extends_handle_env_file)
  with Pair assms(5) show ?thesis
    by (cases y) (auto simp: env_step_def split: if_splits)
qed

lemma extends_update_crontab:
  assumes "ReadText (os_path_join p ''cron.txt'') \<in> L"
    and "\<And>c. Exec (cron_cmd c n) \<in> R"
    and "update_crontab w self p n s = (r, s')"
  shows "extends R L s s'"
proof (cases "path_exists w (os_path_join p ''cron.txt'')")
  case False
  with assms(3) show ?thesis by (simp add: update_crontab_def)
next
  case True
  define s0 where "s0 = local_op (ReadText (os_path_join p ''cron.txt'')) s"
  have a0: "extends R L s s0" unfolding s0_def using assms(1) by (rule extends_local_op)
  show ?thesis
  proof (cases "read_text w (os_path_join p ''cron.txt'')")
    case (Inl e)
    with True assms(3) a0 show ?thesis by (auto simp: update_crontab_def s0_def)
  next
    case (Inr content)
    obtain y s1 where c: "run_remote_command w self (cron_cmd (py_strip content) n) s0 = (y, s1)"
      by fastforce
    have a1: "extends R L s s1" using assms(2) a0 c by (rule extends_run_after)
    from True Inr c assms(3) a1 extends_print_after [OF a1] show ?thesis
      by (cases y) (auto simp: update_crontab_def Let_def s0_def split: if_splits)
  qed
qed

lemma extends_run_setup_commands:
  assumes inst: "Exec (install_cmd self) \<in> R"
    and cmds: "\<And>c. c \<in> set cmds \<Longrightarrow> Exec c \<in> R"
    and run: "run_setup_commands w self cmds s = (r, s')"
  shows "extends R L s s'"
  using cmds run
proof (induction cmds arbitrary: s)
  case Nil
  then show ?case by simp
next
  case (Cons cmd cmds)
  have c: "Exec cmd \<in> R" using Cons.prems(1) by simp
  have ih: "\<And>t. run_setup_commands w self cmds t = (r, s') \<Longrightarrow> extends R L t s'"
    using Cons.prems(1) by (intro Cons.IH) auto
  obtain y s1 where r1: "run_remote_command w self cmd s = (y, s1)" by fastforce
  have a1: "extends R L s s1" using c r1 by (rule extends_run)
  show ?case
  proof (cases y)
    case (Inl e)
    with r1 Cons.prems(2) a1 show ?thesis by simp
  next
    case (Inr result)
    show ?thesis
    proof (cases "returncode result = 0")
      case True
      with Inr r1 Cons.prems(2) have "run_setup_commands w self cmds s1 = (r, s')" by simp
      from a1 ih [OF this] show ?thesis by (rule extends_trans)
    next
      case failed: False
      define s2 where "s2 = print (''Failed to execute '' @ cmd @ '': '' @ stderr result) s1"
      have a2: "extends R L s s2" unfolding s2_def using a1 by (rule extends_print_after)
      show ?thesis
      proof (cases "sublist ''dos2unix'' cmd")
        case False
        with failed Inr r1 Cons.prems(2) a2 show ?thesis by (simp add: s2_def)
      next
        case dos: True
        obtain y2 s3 where r2: "run_remote_command w self (install_cmd self)
                                  (print ''Installing dos2unix...'' s2) = (y2, s3)" by fastforce
        have a3: "extends R L s s3"
          using inst extends_print_after [OF a2] r2 by (rule extends_run_after)
        show ?thesis
        proof (cases y2)
          case (Inl e)
          with dos failed Inr r1 r2 Cons.prems(2) a3 show ?thesis by (simp add: s2_def)
        next
          case inst_res: (Inr installed)
          show ?thesis
          proof (cases "returncode installed = 0")
            case False
            with inst_res dos failed Inr r1 r2 Cons.prems(2)
            have "run_setup_commands w self cmds s3 = (r, s')" by (simp add: s2_def)
            from a3 ih [OF this] show ?thesis by (rule extends_trans)
          next
            case True
            obtain y3 s4 where r3: "run_remote_command w self cmd s3 = (y3, s4)" by fastforce
            have a4: "extends R L s s4" using c a3 r3 by (rule extends_run_after)
            show ?thesis
            proof (cases y3)
              case (Inl e)
              with True inst_res dos failed Inr r1 r2 r3 Cons.prems(2) a4 show ?thesis
                by (simp add: s2_def)
            next
              case again: (Inr res3)
              show ?thesis
              proof (cases "returncode res3 = 0")
                case False
                with again True inst_res dos failed Inr r1 r2 r3 Cons.prems(2)
                  extends_print_after [OF a4]
                show ?thesis by (auto simp: s2_def)
              next
                case ok: True
                with again True inst_res dos failed Inr r1 r2 r3 Cons.prems(2)
                have "run_setup_commands w self cmds s4 = (r, s')" by (simp add: s2_def)
                from a4 ih [OF this] show ?thesis by (rule extends_trans)
              qed
            qed
          qed
        qed
      qed
    qed
  qed
qed

lemma extends_setup_environment:
  assumes mk: "\<And>d. Exec (''mkdir -p '' @ d) \<in> R"
    and ops: "Exec (venv_cmd n) \<in> R" "Exec (chmod_cmd n) \<in> R" "Exec (dos2unix_cmd n) \<in> R"
      "Exec (install_cmd self) \<in> R"
      "Put (os_path_join p ''run_script.sh'') (remote_runner_path_of n) \<in> R"
    and wr: "WriteText (os_path_join p ''run_script.sh'') (runner_script n) \<in> L"
    and run: "setup_environment w self p n s = (r, s')"
  shows "extends R L s s'"
proof (cases "path_exists w (os_path_join p ''requirements.txt'')")
  case False
  with run show ?thesis by (simp add: setup_environment_def)
next
  case True
  obtain y s1 where r1: "run_remote_command w self (venv_cmd n) s = (y, s1)" by fastforce
  have a1: "extends R L s s1" using ops(1) r1 by (rule extends_run)
  show ?thesis
  proof (cases y)
    case (Inl e)
    with True r1 run a1 show ?thesis by (simp add: setup_environment_def)
  next
    case (Inr result)
    show ?thesis
    proof (cases "returncode result = 0")
      case False
      with Inr True r1 run extends_print_after [OF a1] show ?thesis
        by (auto simp: setup_environment_def)
    next
      case ok: True
      define s2 where "s2 = local_op (WriteText (os_path_join p ''run_script.sh'') (runner_script n)) s1"
      have a2: "extends R L s s2" unfolding s2_def using wr a1 by (rule extends_local_op_after)
      show ?thesis
      proof (cases "write_text w (os_path_join p ''run_script.sh'') (runner_script n)")
        case (Some e)
        with ok Inr True r1 run a2 show ?thesis
          by (simp add: setup_environment_def Let_def s2_def)
      next
        case None
        obtain y3 s3 where u: "upload_file w self (os_path_join p ''run_script.sh'')
                                 (remote_runner_path_of n) s2 = (y3, s3)" by fastforce
        have a3: "extends R L s s3" using mk ops(5) a2 u by (rule extends_upload_file_after)
        show ?thesis
        proof (cases y3)
          case (Inl e)
          with None ok Inr True r1 run u a3 show ?thesis
            by (simp add: setup_environment_def Let_def s2_def)
        next
          case up: (Inr uploaded)
          show ?thesis
          proof (cases uploaded)
            case False
            with up None ok Inr True r1 run u a3 show ?thesis
              by (simp add: setup_environment_def Let_def s2_def)
          next
            case yes: True
            with up None ok Inr True r1 run u
            have "run_setup_commands w self [chmod_cmd n, dos2unix_cmd n] s3 = (r, s')"
              by (simp add: setup_environment_def Let_def s2_def)
            with ops(4) _ have "extends R L s3 s'"
            proof (rule extends_run_setup_commands)
              fix c assume "c \<in> set [chmod_cmd n, dos2unix_cmd n]"
              with ops(2,3) show "Exec c \<in> R" by auto
            qed
            with a3 show ?thesis by (rule extends_trans)
          qed
        qed
      qed
    qed
  qed
qed

lemma extends_provision_tail:
  assumes venv: "\<And>t r u. setup_environment w self p n t = (r, u) \<Longrightarrow> extends R L t u"
    and cron: "ReadText (os_path_join p ''cron.txt'') \<in> L" "\<And>c. Exec (cron_cmd c n) \<in> R"
    and run: "provision_tail w self p n s = (r, s')"
  shows "extends R L s s'"
  using _ _ run [unfolded provision_tail_def]
proof (rule extends_and_then)
  fix r t assume "setup_environment w self p n s = (r, t)"
  then show "extends R L s t" by (rule venv)
next
  fix s1 r t assume "update_crontab w self p n s1 = (r, t)"
  with cron show "extends R L s1 t" by (rule extends_update_crontab)
qed

lemma extends_after_directory:
  assumes mk: "\<And>d. Exec (''mkdir -p '' @ d) \<in> R"
    and ch: "Exec (chown_cmd self n) \<in> R"
    and walk: "\<And>l r. l \<in> set (walk_files w p) \<Longrightarrow> Put l r \<in> R"
    and env: "Put (env_file_path_of self n) (remote_env_path_of n) \<in> R"
      "Makedirs (env_dir self) \<in> L" "\<And>c. WriteText (env_file_path_of self n) c \<in> L"
    and venv: "\<And>t r u. setup_environment w self p n t = (r, u) \<Longrightarrow> extends R L t u"
    and cron: "ReadText (os_path_join p ''cron.txt'') \<in> L" "\<And>c. Exec (cron_cmd c n) \<in> R"
    and run: "and_then (set_permissions w self n)
                (and_then (copy_files w self p n)
                  (and_then (env_step w self p n) (provision_tail w self p n))) s = (r, s')"
  shows "extends R L s s'"
  using _ _ run
proof (rule extends_and_then)
  fix r t assume "set_permissions w self n s = (r, t)"
  with ch show "extends R L s t" by (rule extends_set_permissions)
next
  fix s1 r1 t1
  assume "and_then (copy_files w self p n)
            (and_then (env_step w self p n) (provision_tail w self p n)) s1 = (r1, t1)"
  with _ _ show "extends R L s1 t1"
  proof (rule extends_and_then)
    fix r t assume "copy_files w self p n s1 = (r, t)"
    with mk walk show "extends R L s1 t" by (rule extends_copy_files)
  next
    fix s2 r2 t2
    assume "and_then (env_step w self p n) (provision_tail w self p n) s2 = (r2, t2)"
    with _ _ show "extends R L s2 t2"
    proof (rule extends_and_then)
      fix r t assume "env_step w self p n s2 = (r, t)"
      with mk env show "extends R L s2 t" by (rule extends_env_step)
    next
      fix s3 r3 t3
      assume "provision_tail w self p n s3 = (r3, t3)"
      with venv cron show "extends R L s3 t3" by (rule extends_provision_tail)
    qed
  qed
qed

lemma extends_finish:
  assumes "extends R L s t" and "finish n (y, t) = (r, s')"
  shows "extends R L s s'"
  using assms extends_print_after [OF assms(1)]
  by (cases y) (auto simp: finish_def)

lemma extends_setup_environment_any:
  "setup_environment w self p n s = (r, s') \<Longrightarrow> extends UNIV UNIV s s'"
  by (rule extends_setup_environment) simp_all

lemma grows_after_directory:
  assumes "and_then (set_permissions w self n)
             (and_then (copy_files w self p n)
               (and_then (env_step w self p n) (provision_tail w self p n))) s = (r, s')"
  shows "extends UNIV UNIV s s'"
  by (rule extends_after_directory [where w = w and p = p, OF _ _ _ _ _ _ _ _ _ assms])
     (simp_all add: extends_setup_environment_any)

lemma extends_out: "extends R L s t \<Longrightarrow> set (out s) \<subseteq> set (out t)"
  by (auto simp: extends_def)

section \<open>The password on the console\<close>

text \<open>
  Claim C2 says that no printed message contains the remote password. The program does
  the opposite: whatever the environment, the manager and the target, \<open>deploy_script\<close>
  prints the line \<^verbatim>\<open>Creating directory with command:\<close> followed by the privileged command,
  and that command holds the password in clear.
\<close>

theorem deploy_script_prints_password:
  "\<exists>m. m \<in> set (out (snd (deploy_script w self p n s))) \<and> sublist (server_password self) m"
proof -
  let ?m = "''Creating directory with command: '' @ create_dir_cmd self n"
  let ?rest = "and_then (set_permissions w self n)
                 (and_then (copy_files w self p n)
                   (and_then (env_step w self p n) (provision_tail w self p n)))"
  let ?s0 = "print (''\<newline>Deploying '' @ n @ ''...'') s"
  obtain y s1 where c: "create_directory w self n ?s0 = (y, s1)" by fastforce
  from create_directory_prints_command [OF c] have m1: "?m \<in> set (out s1)" by auto
  have "?m \<in> set (out (snd (deploy_script w self p n s)))"
  proof (cases y)
    case Next
    obtain z s2 where t: "?rest s1 = (z, s2)" by fastforce
    have g: "extends UNIV UNIV s1 s2" using t by (rule grows_after_directory)
    obtain r s' where f: "finish n (z, s2) = (r, s')" by fastforce
    have "extends UNIV UNIV s1 s'" using g f by (rule extends_finish)
    then have "?m \<in> set (out s')" using m1 extends_out by blast
    moreover have "deploy_script w self p n s = (r, s')"
      using c Next t f by (simp add: deploy_script_def and_then_def)
    ultimately show ?thesis by simp
  next
    case (Return b)
    with c have "deploy_script w self p n s = (Inr b, s1)"
      by (simp add: deploy_script_def and_then_def finish_def)
    with m1 show ?thesis by simp
  next
    case (Raise e)
    with c have "deploy_script w self p n s = (Inl e, s1)"
      by (simp add: deploy_script_def and_then_def finish_def)
    with m1 show ?thesis by simp
  qed
  with password_in_create_dir_cmd show ?thesis by blast
qed

section \<open>The fallback for the line-ending tool\<close>

lemma dos2unix_cmd_mentions_tool: "sublist ''dos2unix'' (dos2unix_cmd n)"
  unfolding dos2unix_cmd_def by (rule prefix_imp_sublist) simp

lemma failed_install_falls_through:
  assumes "ssh self \<noteq> Absent"
    and "exec_command w (rlog s) (dos2unix_cmd n) = Inr r1" and "returncode r1 \<noteq> 0"
    and "exec_command w (rlog s @ [Exec (dos2unix_cmd n)]) (install_cmd self) = Inr r2"
    and "returncode r2 \<noteq> 0"
  shows "\<exists>s'. run_setup_commands w self [dos2unix_cmd n] s = (Next, s')
           \<and> rlog s' = rlog s @ [Exec (dos2unix_cmd n), Exec (install_cmd self)]"
  using assms by (simp add: run_remote_command_live dos2unix_cmd_mentions_tool)

lemma str_int_0: "str_int 0 = ''0''"
  by code_simp

lemma answer_n: "py_strip (py_lower ''n'') = ''n''"
  by code_simp

text \<open>The definitions a run of \<open>deploy_script\<close> on a concrete environment unfolds.\<close>

lemmas deploy_eval =
  deploy_script_def and_then_def finish_def create_directory_def set_permissions_def
  copy_files_def env_step_def handle_env_file_def provision_tail_def setup_environment_def
  update_crontab_def upload_file_def upload_file_try_def run_remote_command_def
  world_calm_def manager_live_def io0_def input_def print_def remote_def
  local_op_def print_result_def result_ok_def result_failed_def Let_def
  os_path_join_def os_path_dirname_def py_rstrip_chars_def env_file_path_of_def
  remote_env_path_of_def remote_runner_path_of_def str_int_0 answer_n create_dir_cmd_def
  chown_cmd_def venv_cmd_def chmod_cmd_def dos2unix_cmd_def install_cmd_def cron_cmd_def
  cron_entry_def sq_def dq_def sublist_code

text \<open>
  Claim C1 says that the deployment reports failure whenever the installation of
  \<^verbatim>\<open>dos2unix\<close> itself fails. On the source tree \<^verbatim>\<open>main.py\<close>, \<^verbatim>\<open>requirements.txt\<close>, with
  \<^verbatim>\<open>dos2unix\<close> exiting with 127 and the installation with 100, \<open>deploy_script\<close> runs the
  normalization once, runs the installation, does not retry, prints
  \<^verbatim>\<open>Successfully deployed app\<close> and returns \<open>True\<close>.
\<close>

theorem install_failure_reported_as_success:
  "deploy_script world_no_dos2unix manager_live ''/tmp/ab'' ''app'' (io0 [''n'']) =
     (Inr True,
      \<lparr>out = [''\<newline>Deploying app...'',
              ''Creating directory with command: '' @ create_dir_cmd manager_live ''app'',
              ''Create directory result - returncode: 0'', ''stdout: '', ''stderr: '',
              ''Setting permissions with command: '' @ chown_cmd manager_live ''app'',
              ''Set permissions result - returncode: 0'', ''stdout: '', ''stderr: '',
              ''No .env file found for app at /home/op/.script_envs/app.env'',
              ''Would you like to create one now? (y/n): '',
              ''Failed to execute dos2unix /opt/app/run_script.sh: error'',
              ''Installing dos2unix...'',
              ''Successfully deployed app''],
       rlog = [Exec (create_dir_cmd manager_live ''app''),
               Exec (chown_cmd manager_live ''app''),
               Exec ''mkdir -p /opt/app'', Put ''/tmp/ab/main.py'' ''/opt/app/main.py'',
               Exec ''mkdir -p /opt/app'',
               Put ''/tmp/ab/requirements.txt'' ''/opt/app/requirements.txt'',
               Exec (venv_cmd ''app''),
               Exec ''mkdir -p /opt/app'', Put ''/tmp/ab/run_script.sh'' ''/opt/app/run_script.sh'',
               Exec (chmod_cmd ''app''),
               Exec (dos2unix_cmd ''app''),
               Exec (install_cmd manager_live)],
       llog = [WriteText ''/tmp/ab/run_script.sh'' (runner_script ''app'')],
       stdin = []\<rparr>)
   \<and> exec_command world_no_dos2unix
         [] (install_cmd manager_live) = Inr (result_failed 100)"
  by (simp add: deploy_eval world_no_dos2unix_def)

section \<open>The two handles: facts\<close>

lemma cleanup_handles:
  "cleanup w d s = (d', s') \<Longrightarrow> ssh d' \<noteq> Live \<and> sftp d' \<noteq> Live"
  by (auto simp: cleanup_def close_handles_def Let_def split: if_splits option.splits prod.splits)

lemma connect_ok_handles:
  "connect w d s = (Inr (), d', s') \<Longrightarrow> ssh d' = Live \<and> sftp d' = Live"
  by (auto simp: connect_def Let_def split: option.splits)

lemma clone_repo_handles:
  "clone_repo w d url b s = (r, d', s') \<Longrightarrow> ssh d' = ssh d \<and> sftp d' = sftp d"
  by (auto simp: clone_repo_def Let_def split: sum.splits option.splits)

text \<open>
  Claim C8 says that no reachable state has exactly one handle open, the state after a
  failed second handle included. In \<open>connect\<close> the command channel is connected before
  the file-transfer channel is opened, and nothing closes it when that opening raises.
\<close>

theorem connect_without_sftp_counterexample:
  "fst (connect world_no_sftp (manager_new world_no_sftp) (io0 []))
     = Inl (Exn ''SSHException'' ''Channel closed.'')
   \<and> ssh (fst (snd (connect world_no_sftp (manager_new world_no_sftp) (io0 [])))) = Live
   \<and> sftp (fst (snd (connect world_no_sftp (manager_new world_no_sftp) (io0 [])))) = Absent
   \<and> \<not> handles_agree (fst (snd (connect world_no_sftp (manager_new world_no_sftp) (io0 []))))"
  by (simp add: connect_def world_no_sftp_def world_calm_def manager_new_def init_manager_def
      io0_def remote_def handles_agree_def Let_def)

text \<open>
  Claim C8 as amended. \<open>connect\<close> opens both handles when it returns, \<open>cleanup\<close> leaves
  none open, and no other operation changes them: the two handles agree in every state
  reachable from a new manager by the public operations, a \<open>connect\<close> that raises being
  followed by \<open>cleanup\<close>.
\<close>

theorem handles_agree_when_reachable:
  "reachable w d s \<Longrightarrow> handles_agree d"
proof (induction rule: reachable.induct)
  case (created h u pw e s)
  then show ?case by (simp add: handles_agree_def init_manager_def)
next
  case (connected d s d' s')
  then show ?case using connect_ok_handles [of w d s d' s'] by (simp add: handles_agree_def)
next
  case (connect_failed_cleaned d s e d1 s1 d' s')
  then show ?case using cleanup_handles [of w d1 s1 d' s'] by (simp add: handles_agree_def)
next
  case (cleaned d s d' s')
  then show ?case using cleanup_handles [of w d s d' s'] by (simp add: handles_agree_def)
next
  case (cloned d s url b r d' s')
  then show ?case using clone_repo_handles [of w d url b s r d' s'] by (simp add: handles_agree_def)
qed

theorem handles_agree_when_reachable_witness:
  "reachable world_calm (fst (snd (connect world_calm (manager_new world_calm) (io0 []))))
                        (snd (snd (connect world_calm (manager_new world_calm) (io0 []))))
   \<and> handles_agree (fst (snd (connect world_calm (manager_new world_calm) (io0 []))))
   \<and> ssh (fst (snd (connect world_calm (manager_new world_calm) (io0 [])))) = Live
   \<and> reachable world_no_sftp
        (fst (cleanup world_no_sftp
               (fst (snd (connect world_no_sftp (manager_new world_no_sftp) (io0 []))))
               (snd (snd (connect world_no_sftp (manager_new world_no_sftp) (io0 []))))))
        (snd (cleanup world_no_sftp
               (fst (snd (connect world_no_sftp (manager_new world_no_sftp) (io0 []))))
               (snd (snd (connect world_no_sftp (manager_new world_no_sftp) (io0 []))))))
   \<and> handles_agree
        (fst (cleanup world_no_sftp
               (fst (snd (connect world_no_sftp (manager_new world_no_sftp) (io0 []))))
               (snd (snd (connect world_no_sftp (manager_new world_no_sftp) (io0 []))))))"
proof -
  let ?c = "connect world_calm (manager_new world_calm) (io0 [])"
  let ?f = "connect world_no_sftp (manager_new world_no_sftp) (io0 [])"
  let ?k = "cleanup world_no_sftp (fst (snd ?f)) (snd (snd ?f))"
  have ok: "fst ?c = Inr ()"
    by (simp add: connect_def world_calm_def manager_new_def init_manager_def io0_def remote_def
        Let_def)
  have "reachable world_calm (manager_new world_calm) (io0 [])"
    unfolding manager_new_def by (rule reachable.created)
  moreover have "?c = (Inr (), fst (snd ?c), snd (snd ?c))"
    using ok by (metis prod.collapse)
  ultimately have r1: "reachable world_calm (fst (snd ?c)) (snd (snd ?c))"
    by (rule reachable.connected)
  have live: "ssh (fst (snd ?c)) = Live"
    by (simp add: connect_def world_calm_def manager_new_def init_manager_def io0_def remote_def
        Let_def)
  have bad: "fst ?f = Inl (Exn ''SSHException'' ''Channel closed.'')"
    by (simp add: connect_def world_no_sftp_def world_calm_def manager_new_def init_manager_def
        io0_def remote_def Let_def)
  have "reachable world_no_sftp (manager_new world_no_sftp) (io0 [])"
    unfolding manager_new_def by (rule reachable.created)
  moreover have "?f = (Inl (Exn ''SSHException'' ''Channel closed.''), fst (snd ?f), snd (snd ?f))"
    using bad by (metis prod.collapse)
  moreover have "?k = (fst ?k, snd ?k)" by simp
  ultimately have r2: "reachable world_no_sftp (fst ?k) (snd ?k)"
    by (rule reachable.connect_failed_cleaned)
  from r1 r2 live handles_agree_when_reachable [OF r1] handles_agree_when_reachable [OF r2]
  show ?thesis by blast
qed

section \<open>Schedule installation\<close>

lemma and_then_assoc: "and_then (and_then f g) h s = and_then f (and_then g h) s"
  by (cases "f s"; cases "fst (f s)") (auto simp: and_then_def split: prod.splits outcome.splits)




lemma quoted_plain_append [simp]: "quoted_plain (a @ b) = (quoted_plain a \<and> quoted_plain b)"
  by (simp add: quoted_plain_def)












section \<open>Clean-up\<close>

lemma rmtree_handle_result:
  "rmtree_handle w i paths s = (x, s') \<Longrightarrow>
     (x = None) = (\<not> list_ex (\<lambda>path. chmod_writable w i path \<noteq> None \<or> remove_again w i path \<noteq> None) paths)
     \<and> rlog s' = rlog s \<and> out s' = out s \<and> stdin s' = stdin s
     \<and> (\<exists>ev. llog s' = llog s @ ev \<and> (\<forall>d. Rmtree d \<notin> set ev) \<and> (\<forall>k. Sleep k \<notin> set ev)
              \<and> (x = None \<longrightarrow> ev = fixups paths))"
proof (induction paths arbitrary: s)
  case Nil
  then show ?case by (simp add: fixups_def)
next
  case (Cons path paths)
  show ?case
  proof (cases "chmod_writable w i path")
    case (Some e)
    with Cons.prems show ?thesis
      by (auto simp: force_remove_readonly_def)
  next
    case None
    show ?thesis
    proof (cases "remove_again w i path")
      case (Some e)
      with None Cons.prems show ?thesis
        by (auto simp: force_remove_readonly_def)
    next
      case ok: None
      with None Cons.prems
      have "rmtree_handle w i paths (local_op (Remove path) (local_op (Chmod path) s)) = (x, s')"
        by (simp add: force_remove_readonly_def)
      from Cons.IH [OF this] None ok show ?thesis
        by (auto simp: fixups_def)
    qed
  qed
qed

lemma rmtree_result:
  assumes "rmtree w i dir s = (x, s')"
  shows "(x = None) = (\<not> attempt_fails w i)
     \<and> rlog s' = rlog s \<and> out s' = out s \<and> stdin s' = stdin s
     \<and> (\<exists>ev. llog s' = llog s @ Rmtree dir # ev \<and> (\<forall>d. Rmtree d \<notin> set ev)
              \<and> (\<forall>k. Sleep k \<notin> set ev)
              \<and> (x = None \<longrightarrow> ev = fixups (rmtree_errors w i)))"
  using rmtree_handle_result [OF assms [unfolded rmtree_def]]
  by (auto simp: attempt_fails_def)

lemma upt_three: "[0 ..< 3] = [0, 1, 2 :: nat]"
  by (simp add: upt_rec)

lemma remove_temp_dir_result:
  "\<exists>ev. rlog (remove_temp_dir w dir 3 [0 ..< 3] s) = rlog s
      \<and> stdin (remove_temp_dir w dir 3 [0 ..< 3] s) = stdin s
      \<and> llog (remove_temp_dir w dir 3 [0 ..< 3] s) = llog s @ ev
      \<and> count_list ev (Rmtree dir) =
           (if \<not> attempt_fails w 0 then 1 else if \<not> attempt_fails w 1 then 2 else 3)
      \<and> count_list ev (Sleep 1) =
           (if \<not> attempt_fails w 0 then 0 else if \<not> attempt_fails w 1 then 1 else 2)
      \<and> out (remove_temp_dir w dir 3 [0 ..< 3] s) =
           out s @ (if attempt_fails w 0 \<and> attempt_fails w 1 \<and> attempt_fails w 2
                    then removal_warning dir else [])
      \<and> (\<not> attempt_fails w 0 \<longrightarrow> ev = Rmtree dir # fixups (rmtree_errors w 0))"
proof -
  obtain x0 t0 where r0: "rmtree w 0 dir s = (x0, t0)" by fastforce
  from rmtree_result [OF r0] obtain ev0 where
    f0: "(x0 = None) = (\<not> attempt_fails w 0)" "rlog t0 = rlog s" "out t0 = out s" "stdin t0 = stdin s"
      "llog t0 = llog s @ Rmtree dir # ev0" "\<forall>d. Rmtree d \<notin> set ev0" "\<forall>k. Sleep k \<notin> set ev0"
      "x0 = None \<longrightarrow> ev0 = fixups (rmtree_errors w 0)"
    by blast
  show ?thesis
  proof (cases "attempt_fails w 0")
    case False
    with f0 r0 show ?thesis by (auto simp: upt_three)
  next
    case a0: True
    obtain x1 t1 where r1: "rmtree w 1 dir (local_op (Sleep 1) t0) = (x1, t1)" by fastforce
    from rmtree_result [OF r1] obtain ev1 where
      f1: "(x1 = None) = (\<not> attempt_fails w 1)" "rlog t1 = rlog t0" "out t1 = out t0"
        "stdin t1 = stdin t0" "llog t1 = llog t0 @ Sleep 1 # Rmtree dir # ev1"
        "\<forall>d. Rmtree d \<notin> set ev1" "\<forall>k. Sleep k \<notin> set ev1"
      by auto
    show ?thesis
    proof (cases "attempt_fails w 1")
      case False
      with a0 f0 r0 f1 r1 show ?thesis by (auto simp: upt_three)
    next
      case a1: True
      obtain x2 t2 where r2: "rmtree w 2 dir (local_op (Sleep 1) t1) = (x2, t2)" by fastforce
      from rmtree_result [OF r2] obtain ev2 where
        f2: "(x2 = None) = (\<not> attempt_fails w 2)" "rlog t2 = rlog t1" "out t2 = out t1"
          "stdin t2 = stdin t1" "llog t2 = llog t1 @ Sleep 1 # Rmtree dir # ev2"
          "\<forall>d. Rmtree d \<notin> set ev2" "\<forall>k. Sleep k \<notin> set ev2"
        by auto
      show ?thesis
      proof (cases "attempt_fails w 2")
        case False
        with a0 a1 f0 r0 f1 r1 f2 r2 show ?thesis by (auto simp: upt_three)
      next
        case True
        with a0 a1 f0 r0 f1 r1 f2 r2 show ?thesis
          by (auto simp: upt_three removal_warning_def)
      qed
    qed
  qed
qed

lemma close_handles_result:
  "close_handles d s = (d', s') \<Longrightarrow>
     ssh d' \<noteq> Live \<and> sftp d' \<noteq> Live \<and> temp_dir d' = temp_dir d
     \<and> out s' = out s \<and> llog s' = llog s \<and> stdin s' = stdin s
     \<and> rlog s' = rlog s @ (if sftp d \<noteq> Absent then [CloseSftp] else [])
                         @ (if ssh d \<noteq> Absent then [CloseSsh] else [])"
  by (auto simp: close_handles_def Let_def split: if_splits)

text \<open>
  Claim C9. Once the password is read, every run of the driver ends with \<open>cleanup\<close>,
  applied to the manager and the state the \<^verbatim>\<open>try\<close> block leaves (after the error
  message, if the block raised), and returns what the block returned or raised. After it
  no handle is open, and every handle that existed has been closed. If the workspace
  exists it is removed by at most three \<^verbatim>\<open>rmtree\<close> calls, each repairing the paths it
  fails on by making them writable and removing them again, with a one-second sleep
  between two calls; an attempt whose repairs all work ends the loop, and only when all
  three fail are the two warning lines printed. \<open>cleanup\<close> itself never raises.
\<close>

theorem cleanup_on_every_exit:
  assumes "getpass w = Inr pw"
  shows "\<exists>r d0 s0 t d s' ev.
           main_try w a pw s = (r, d0, s0)
         \<and> t = (case r of Inl e \<Rightarrow> print (''An error occurred: '' @ exn_msg e) s0 | Inr _ \<Rightarrow> s0)
         \<and> cleanup w d0 t = (d, s')
         \<and> main_run w a s = (r, Some d, s') \<and> main w a s = (r, s')
         \<and> ssh d \<noteq> Live \<and> sftp d \<noteq> Live
         \<and> rlog s' = rlog t @ (if sftp d0 \<noteq> Absent then [CloseSftp] else [])
                             @ (if ssh d0 \<noteq> Absent then [CloseSsh] else [])
         \<and> llog s' = llog t @ ev
         \<and> (case temp_dir d0 of
               None \<Rightarrow> ev = [] \<and> out s' = out t
             | Some dir \<Rightarrow>
                 if dir \<noteq> [] \<and> path_exists w dir then
                   count_list ev (Rmtree dir) =
                     (if \<not> attempt_fails w 0 then 1 else if \<not> attempt_fails w 1 then 2 else 3)
                   \<and> count_list ev (Sleep 1) = count_list ev (Rmtree dir) - 1
                   \<and> out s' = out t @ (if attempt_fails w 0 \<and> attempt_fails w 1 \<and> attempt_fails w 2
                                        then removal_warning dir else [])
                   \<and> (\<not> attempt_fails w 0 \<longrightarrow> ev = Rmtree dir # fixups (rmtree_errors w 0))
                 else ev = [] \<and> out s' = out t)"
proof -
  obtain r d0 s0 where mt: "main_try w a pw s = (r, d0, s0)" by (metis prod_cases3)
  define t where "t = (case r of Inl e \<Rightarrow> print (''An error occurred: '' @ exn_msg e) s0 | Inr _ \<Rightarrow> s0)"
  obtain d1 t1 where ch: "close_handles d0 t = (d1, t1)" by fastforce
  note c = close_handles_result [OF ch]
  obtain d s' where cl: "cleanup w d0 t = (d, s')" by fastforce
  have mr: "main_run w a s = (r, Some d, s')"
    using assms mt cl by (simp add: main_run_def t_def Let_def)
  then have m: "main w a s = (r, s')" by (simp add: main_def)
  have d: "d = d1" using cl ch by (auto simp: cleanup_def split: option.splits if_splits)
  have tdef: "t = (case r of Inl e \<Rightarrow> print (''An error occurred: '' @ exn_msg e) s0 | Inr _ \<Rightarrow> s0)"
    by (simp add: t_def)
  have hd: "ssh d \<noteq> Live \<and> sftp d \<noteq> Live" using c d by simp
  have same: "s' = t1 \<Longrightarrow> rlog s' = rlog t @ (if sftp d0 \<noteq> Absent then [CloseSftp] else [])
                             @ (if ssh d0 \<noteq> Absent then [CloseSsh] else [])
                  \<and> llog s' = llog t @ [] \<and> out s' = out t"
    using c by simp
  show ?thesis
  proof (cases "temp_dir d0")
    case None
    with cl ch c have "s' = t1" by (simp add: cleanup_def)
    from same [OF this] None
    have "(case temp_dir d0 of
               None \<Rightarrow> [] = [] \<and> out s' = out t
             | Some dir \<Rightarrow>
                 if dir \<noteq> [] \<and> path_exists w dir then
                   count_list [] (Rmtree dir) =
                     (if \<not> attempt_fails w 0 then 1 else if \<not> attempt_fails w 1 then 2 else 3)
                   \<and> count_list [] (Sleep 1) = count_list [] (Rmtree dir) - 1
                   \<and> out s' = out t @ (if attempt_fails w 0 \<and> attempt_fails w 1 \<and> attempt_fails w 2
                                        then removal_warning dir else [])
                   \<and> (\<not> attempt_fails w 0 \<longrightarrow> [] = Rmtree dir # fixups (rmtree_errors w 0))
                 else [] = [] \<and> out s' = out t)"
      by simp
    with mt tdef cl mr m hd same [OF \<open>s' = t1\<close>] show ?thesis by blast
  next
    case (Some dir)
    show ?thesis
    proof (cases "dir \<noteq> [] \<and> path_exists w dir")
      case False
      with Some cl ch c have "s' = t1" by (auto simp: cleanup_def)
      from same [OF this] Some False
      have "(case temp_dir d0 of
               None \<Rightarrow> [] = [] \<and> out s' = out t
             | Some dir \<Rightarrow>
                 if dir \<noteq> [] \<and> path_exists w dir then
                   count_list [] (Rmtree dir) =
                     (if \<not> attempt_fails w 0 then 1 else if \<not> attempt_fails w 1 then 2 else 3)
                   \<and> count_list [] (Sleep 1) = count_list [] (Rmtree dir) - 1
                   \<and> out s' = out t @ (if attempt_fails w 0 \<and> attempt_fails w 1 \<and> attempt_fails w 2
                                        then removal_warning dir else [])
                   \<and> (\<not> attempt_fails w 0 \<longrightarrow> [] = Rmtree dir # fixups (rmtree_errors w 0))
                 else [] = [] \<and> out s' = out t)"
        by simp
      with mt tdef cl mr m hd same [OF \<open>s' = t1\<close>] show ?thesis by blast
    next
      case True
      with Some cl ch c have s': "s' = remove_temp_dir w dir 3 [0 ..< 3] t1" by (auto simp: cleanup_def)
      from remove_temp_dir_result [of w dir t1] obtain ev where
        ev: "rlog s' = rlog t1" "llog s' = llog t1 @ ev"
          "count_list ev (Rmtree dir) =
             (if \<not> attempt_fails w 0 then 1 else if \<not> attempt_fails w 1 then 2 else 3)"
          "count_list ev (Sleep 1) =
             (if \<not> attempt_fails w 0 then 0 else if \<not> attempt_fails w 1 then 1 else 2)"
          "out s' = out t1 @ (if attempt_fails w 0 \<and> attempt_fails w 1 \<and> attempt_fails w 2
                              then removal_warning dir else [])"
          "\<not> attempt_fails w 0 \<longrightarrow> ev = Rmtree dir # fixups (rmtree_errors w 0)"
        unfolding s' by blast
      have sl: "count_list ev (Sleep 1) = count_list ev (Rmtree dir) - 1"
        using ev(3,4) by simp
      have tail: "(case temp_dir d0 of
               None \<Rightarrow> ev = [] \<and> out s' = out t
             | Some dir \<Rightarrow>
                 if dir \<noteq> [] \<and> path_exists w dir then
                   count_list ev (Rmtree dir) =
                     (if \<not> attempt_fails w 0 then 1 else if \<not> attempt_fails w 1 then 2 else 3)
                   \<and> count_list ev (Sleep 1) = count_list ev (Rmtree dir) - 1
                   \<and> out s' = out t @ (if attempt_fails w 0 \<and> attempt_fails w 1 \<and> attempt_fails w 2
                                        then removal_warning dir else [])
                   \<and> (\<not> attempt_fails w 0 \<longrightarrow> ev = Rmtree dir # fixups (rmtree_errors w 0))
                 else ev = [] \<and> out s' = out t)"
        using Some True ev(3,5,6) sl c by simp
      have rl: "rlog s' = rlog t @ (if sftp d0 \<noteq> Absent then [CloseSftp] else [])
                             @ (if ssh d0 \<noteq> Absent then [CloseSsh] else [])"
        using ev(1) c by simp
      have ll: "llog s' = llog t @ ev" using ev(2) c by simp
      from mt tdef cl mr m hd rl ll tail show ?thesis by blast
    qed
  qed
qed

lemmas main_eval =
  main_def main_run_def main_try_def init_manager_def connect_def verify_python_version_def
  clone_repo_def deploy_or_list_def cleanup_def close_handles_def rmtree_def
  force_remove_readonly_def args_app_def upt_three

lemma strip_empty: "py_strip [] = []"
  by code_simp

theorem cleanup_on_every_exit_witness:
  "main world_readonly_tree args_app (io0 []) =
     (Inr (),
      \<lparr>out = [''Initializing deployment manager...'', ''Establishing SSH connection...'',
              ''Verifying Python version...'', ''Remote Python version: '',
              ''Cloning repository...'', ''Repository cloned to: /tmp/ab'',
              ''Checking repository structure...'', ''No main.py found in repository root!'',
              ''Repository structure:''],
       rlog = [Connect ''10.0.0.4'' ''scada'' ''hunter2'', OpenSftp,
               Exec ''command -v python3.12'', Exec ''python3.12 --version'',
               CloseSftp, CloseSsh],
       llog = [Mkdtemp ''/tmp/ab'', GitClone ''https://github.com/org/app.git'' ''master'' ''/tmp/ab'',
               Rmtree ''/tmp/ab'', Chmod ''/tmp/ab/.git/objects/pack/p.idx'', Sleep 1,
               Rmtree ''/tmp/ab'', Chmod ''/tmp/ab/.git/objects/pack/p.idx'',
               Remove ''/tmp/ab/.git/objects/pack/p.idx''],
       stdin = []\<rparr>)
   \<and> main world_mkdir_denied args_app (io0 []) =
     (Inl (Exn ''RuntimeError'' ''Python 3.12 is not installed on the remote server''),
      \<lparr>out = [''Initializing deployment manager...'', ''Establishing SSH connection...'',
              ''Verifying Python version...'',
              ''An error occurred: Python 3.12 is not installed on the remote server''],
       rlog = [Connect ''10.0.0.4'' ''scada'' ''hunter2'', OpenSftp,
               Exec ''command -v python3.12'', CloseSftp, CloseSsh],
       llog = [], stdin = []\<rparr>)"
  using cleanup_on_every_exit [of world_readonly_tree "''hunter2''" args_app "io0 []"]
    cleanup_on_every_exit [of world_mkdir_denied "''hunter2''" args_app "io0 []"]
  by (simp add: main_eval deploy_eval world_readonly_tree_def world_mkdir_denied_def strip_empty)

section \<open>A repository without an entry point\<close>

lemma print_files_result:
  "out (print_files ind fs s) = out s @ map (\<lambda>f. ind @ f) fs
   \<and> rlog (print_files ind fs s) = rlog s \<and> llog (print_files ind fs s) = llog s
   \<and> stdin (print_files ind fs s) = stdin s"
  by (induction fs arbitrary: s) simp_all

lemma print_structure_result:
  "out (print_structure rp dirs s) = out s @ structure_lines rp dirs
   \<and> rlog (print_structure rp dirs s) = rlog s \<and> llog (print_structure rp dirs s) = llog s
   \<and> stdin (print_structure rp dirs s) = stdin s"
proof (induction dirs arbitrary: s)
  case Nil
  then show ?case by simp
next
  case (Cons d dirs)
  obtain root files where "d = (root, files)" by (cases d)
  then show ?case
    using Cons.IH by (simp add: Let_def print_files_result)
qed

lemma cleanup_result:
  assumes "cleanup w d t = (d', s')"
  shows "rlog s' = rlog t @ (if sftp d \<noteq> Absent then [CloseSftp] else [])
                        @ (if ssh d \<noteq> Absent then [CloseSsh] else [])
         \<and> prefix (out t) (out s') \<and> stdin s' = stdin t"
proof -
  obtain d1 t1 where ch: "close_handles d t = (d1, t1)" by fastforce
  note c = close_handles_result [OF ch]
  have "s' = t1 \<or> (\<exists>dir. s' = remove_temp_dir w dir 3 [0 ..< 3] t1)"
    using assms ch by (auto simp: cleanup_def split: option.splits if_splits)
  then show ?thesis
  proof
    assume "s' = t1"
    with c show ?thesis by simp
  next
    assume "\<exists>dir. s' = remove_temp_dir w dir 3 [0 ..< 3] t1"
    then obtain dir where s': "s' = remove_temp_dir w dir 3 [0 ..< 3] t1" by blast
    from remove_temp_dir_result [of w dir t1] obtain ev where
      "rlog s' = rlog t1" "stdin s' = stdin t1"
      "out s' = out t1 @ (if attempt_fails w 0 \<and> attempt_fails w 1 \<and> attempt_fails w 2
                          then removal_warning dir else [])"
      unfolding s' by blast
    with c show ?thesis by simp
  qed
qed

text \<open>
  Claim C10. Let the password be read, the session be established, both version checks
  exit with 0 and the clone succeed. If the root of the clone has no \<^verbatim>\<open>main.py\<close>, the
  driver returns without raising; its remote operations are the connection, the two
  version checks and the two closes of \<open>cleanup\<close>, so that no step of \<open>deploy_script\<close>
  ran; it prints that no \<^verbatim>\<open>main.py\<close> was found and then the listing of the repository;
  it reads no input.
\<close>

theorem missing_main_py_only_lists:
  assumes gp: "getpass w = Inr pw"
    and c1: "ssh_connect w (rlog s) (host a) (user a) pw = None"
    and c2: "open_sftp w (rlog s @ [Connect (host a) (user a) pw]) = None"
    and v1: "exec_command w (rlog s @ [Connect (host a) (user a) pw, OpenSftp])
               ''command -v python3.12'' = Inr r1" "returncode r1 = 0"
    and v2: "exec_command w (rlog s @ [Connect (host a) (user a) pw, OpenSftp,
                                       Exec ''command -v python3.12''])
               ''python3.12 --version'' = Inr r2" "returncode r2 = 0"
    and cl: "mkdtemp w = Inr dir" "git_clone w (repo_url a) (branch a) dir = None"
    and nomain: "\<not> path_exists w (os_path_join dir ''main.py'')"
  shows "\<exists>s'. main w a s = (Inr (), s')
          \<and> rlog s' = rlog s @ [Connect (host a) (user a) pw, OpenSftp,
                                 Exec ''command -v python3.12'', Exec ''python3.12 --version'',
                                 CloseSftp, CloseSsh]
          \<and> prefix (out s @ [''Initializing deployment manager...'',
                              ''Establishing SSH connection...'',
                              ''Verifying Python version...'',
                              ''Remote Python version: '' @ py_strip (stdout r2),
                              ''Cloning repository...'',
                              ''Repository cloned to: '' @ dir,
                              ''Checking repository structure...'',
                              ''No main.py found in repository root!'',
                              ''Repository structure:'']
                        @ structure_lines dir (os_walk w dir)) (out s')
          \<and> stdin s' = stdin s"
proof -
  obtain r d0 s0 where mt: "main_try w a pw s = (r, d0, s0)" by (metis prod_cases3)
  note defs = main_try_def init_manager_def connect_def verify_python_version_def
    run_remote_command_def clone_repo_def deploy_or_list_def Let_def print_structure_result
  have r: "r = Inr ()"
    using mt assms by (auto simp: defs)
  have h: "ssh d0 = Live \<and> sftp d0 = Live"
    using mt assms by (auto simp: defs)
  have l: "rlog s0 = rlog s @ [Connect (host a) (user a) pw, OpenSftp,
                               Exec ''command -v python3.12'', Exec ''python3.12 --version'']"
    using mt assms by (auto simp: defs)
  have o: "out s0 = out s @ [''Initializing deployment manager...'',
                              ''Establishing SSH connection...'',
                              ''Verifying Python version...'',
                              ''Remote Python version: '' @ py_strip (stdout r2),
                              ''Cloning repository...'',
                              ''Repository cloned to: '' @ dir,
                              ''Checking repository structure...'',
                              ''No main.py found in repository root!'',
                              ''Repository structure:'']
                        @ structure_lines dir (os_walk w dir)"
    using mt assms by (auto simp: defs)
  have i: "stdin s0 = stdin s"
    using mt assms by (auto simp: defs)
  obtain d s' where c: "cleanup w d0 s0 = (d, s')" by fastforce
  have m: "main w a s = (Inr (), s')"
    using gp mt r c by (simp add: main_def main_run_def)
  from cleanup_result [OF c] h l o i m show ?thesis by simp
qed

lemma bare_repo_lines:
  "structure_lines ''/tmp/ab'' [(''/tmp/ab'', [''README.md'']), (''/tmp/ab/src'', [''a.py''])]
     = [''ab/'', ''    README.md'', ''    src/'', ''        a.py'']"
  by code_simp

lemma strip_version: "py_strip ''Python 3.12.3\<newline>'' = ''Python 3.12.3''"
  by code_simp

theorem missing_main_py_only_lists_witness:
  "fst (main world_bare_repo args_app (io0 [])) = Inr ()
   \<and> rlog (snd (main world_bare_repo args_app (io0 []))) =
        [Connect ''10.0.0.4'' ''scada'' ''hunter2'', OpenSftp,
         Exec ''command -v python3.12'', Exec ''python3.12 --version'', CloseSftp, CloseSsh]
   \<and> out (snd (main world_bare_repo args_app (io0 []))) =
        [''Initializing deployment manager...'', ''Establishing SSH connection...'',
         ''Verifying Python version...'', ''Remote Python version: Python 3.12.3'',
         ''Cloning repository...'', ''Repository cloned to: /tmp/ab'',
         ''Checking repository structure...'', ''No main.py found in repository root!'',
         ''Repository structure:'', ''ab/'', ''    README.md'', ''    src/'', ''        a.py'']"
proof -
  let ?v = "\<lparr>returncode = 0, stdout = ''Python 3.12.3\<newline>'', stderr = []\<rparr>"
  have "\<exists>s'. main world_bare_repo args_app (io0 []) = (Inr (), s')
          \<and> rlog s' = rlog (io0 []) @ [Connect (host args_app) (user args_app) ''hunter2'', OpenSftp,
                                 Exec ''command -v python3.12'', Exec ''python3.12 --version'',
                                 CloseSftp, CloseSsh]
          \<and> prefix (out (io0 []) @ [''Initializing deployment manager...'',
                              ''Establishing SSH connection...'',
                              ''Verifying Python version...'',
                              ''Remote Python version: '' @ py_strip (stdout ?v),
                              ''Cloning repository...'',
                              ''Repository cloned to: '' @ ''/tmp/ab'',
                              ''Checking repository structure...'',
                              ''No main.py found in repository root!'',
                              ''Repository structure:'']
                        @ structure_lines ''/tmp/ab'' (os_walk world_bare_repo ''/tmp/ab'')) (out s')
          \<and> stdin s' = stdin (io0 [])"
    by (rule missing_main_py_only_lists [where ?r1.0 = result_ok])
       (simp_all add: world_bare_repo_def world_calm_def args_app_def result_ok_def io0_def
         os_path_join_def)
  then obtain s' where m: "main world_bare_repo args_app (io0 []) = (Inr (), s')"
    and rl: "rlog s' = rlog (io0 []) @ [Connect (host args_app) (user args_app) ''hunter2'', OpenSftp,
                                 Exec ''command -v python3.12'', Exec ''python3.12 --version'',
                                 CloseSftp, CloseSsh]"
    by blast
  have o: "out (snd (main world_bare_repo args_app (io0 []))) =
        [''Initializing deployment manager...'', ''Establishing SSH connection...'',
         ''Verifying Python version...'', ''Remote Python version: Python 3.12.3'',
         ''Cloning repository...'', ''Repository cloned to: /tmp/ab'',
         ''Checking repository structure...'', ''No main.py found in repository root!'',
         ''Repository structure:'', ''ab/'', ''    README.md'', ''    src/'', ''        a.py'']"
    by (simp add: main_eval deploy_eval world_bare_repo_def print_structure_result bare_repo_lines
        strip_version del: structure_lines.simps print_structure.simps)
  from m rl o show ?thesis
    by (simp add: io0_def args_app_def)
qed

section \<open>A source tree without a dependency manifest: facts\<close>












section \<open>Secrets declined\<close>

text \<open>The steps after the secrets step look at the two logs only: from states with the same
  logs they give the same result and the same logs. The steps before it read no input.\<close>

lemma run_remote_command_logs:
  assumes "rlog s = rlog t" and "llog s = llog t"
  shows "fst (run_remote_command w self c s) = fst (run_remote_command w self c t)
       \<and> rlog (snd (run_remote_command w self c s)) = rlog (snd (run_remote_command w self c t))
       \<and> llog (snd (run_remote_command w self c s)) = llog (snd (run_remote_command w self c t))"
  using assms by (simp add: run_remote_command_def)

lemma upload_file_logs:
  assumes "rlog s = rlog t" and "llog s = llog t"
  shows "fst (upload_file w self l r s) = fst (upload_file w self l r t)
       \<and> rlog (snd (upload_file w self l r s)) = rlog (snd (upload_file w self l r t))
       \<and> llog (snd (upload_file w self l r s)) = llog (snd (upload_file w self l r t))"
proof (cases "ssh self = Absent")
  case True
  with assms show ?thesis
    by (simp add: upload_file_def upload_file_try_def run_remote_command_def)
next
  case live: False
  show ?thesis
  proof (cases "exec_command w (rlog t) (''mkdir -p '' @ os_path_dirname r)")
    case (Inl e)
    with live assms show ?thesis
      by (simp add: upload_file_def upload_file_try_def run_remote_command_def)
  next
    case (Inr res)
    with live assms show ?thesis
      by (cases "sftp self = Absent";
          cases "sftp_put w (rlog t @ [Exec (''mkdir -p '' @ os_path_dirname r)]) l r")
         (simp_all add: upload_file_def upload_file_try_def run_remote_command_def)
  qed
qed

lemma run_setup_commands_logs:
  assumes "rlog s = rlog t" and "llog s = llog t"
  shows "fst (run_setup_commands w self cmds s) = fst (run_setup_commands w self cmds t)
       \<and> rlog (snd (run_setup_commands w self cmds s)) = rlog (snd (run_setup_commands w self cmds t))
       \<and> llog (snd (run_setup_commands w self cmds s)) = llog (snd (run_setup_commands w self cmds t))"
  using assms
proof (induction cmds arbitrary: s t)
  case Nil
  then show ?case by simp
next
  case (Cons cmd cmds)
  note ih = Cons.IH
  show ?case
  proof (cases "ssh self = Absent")
    case True
    with Cons.prems show ?thesis by (simp add: run_remote_command_def)
  next
    case live: False
    show ?thesis
    proof (cases "exec_command w (rlog t) cmd")
      case (Inl e)
      with live Cons.prems show ?thesis by (simp add: run_remote_command_def)
    next
      case (Inr result)
      show ?thesis
      proof (cases "returncode result = 0")
        case True
        with Inr live Cons.prems show ?thesis
          by (simp add: run_remote_command_def ih)
      next
        case failed: False
        show ?thesis
        proof (cases "sublist ''dos2unix'' cmd")
          case False
          with failed Inr live Cons.prems show ?thesis by (simp add: run_remote_command_def)
        next
          case dos: True
          show ?thesis
          proof (cases "exec_command w (rlog t @ [Exec cmd]) (install_cmd self)")
            case (Inl e)
            with dos failed Inr live Cons.prems show ?thesis
              by (simp add: run_remote_command_def)
          next
            case inst: (Inr installed)
            show ?thesis
            proof (cases "returncode installed = 0")
              case False
              with inst dos failed Inr live Cons.prems show ?thesis
                by (simp add: run_remote_command_def ih)
            next
              case True
              with inst dos failed Inr live Cons.prems show ?thesis
                by (cases "exec_command w (rlog t @ [Exec cmd, Exec (install_cmd self)]) cmd")
                   (simp_all add: run_remote_command_def ih Let_def)
            qed
          qed
        qed
      qed
    qed
  qed
qed

lemma setup_environment_logs:
  assumes "rlog s = rlog t" and "llog s = llog t"
  shows "fst (setup_environment w self p n s) = fst (setup_environment w self p n t)
       \<and> rlog (snd (setup_environment w self p n s)) = rlog (snd (setup_environment w self p n t))
       \<and> llog (snd (setup_environment w self p n s)) = llog (snd (setup_environment w self p n t))"
proof (cases "path_exists w (os_path_join p ''requirements.txt'') \<and> ssh self \<noteq> Absent")
  case False
  with assms show ?thesis
    by (auto simp: setup_environment_def run_remote_command_def)
next
  case pre: True
  show ?thesis
  proof (cases "exec_command w (rlog t) (venv_cmd n)")
    case (Inl e)
    with pre assms show ?thesis by (simp add: setup_environment_def run_remote_command_def)
  next
    case (Inr result)
    show ?thesis
    proof (cases "returncode result = 0
                  \<and> write_text w (os_path_join p ''run_script.sh'') (runner_script n) = None")
      case False
      with Inr pre assms show ?thesis
        by (auto simp: setup_environment_def run_remote_command_def Let_def)
    next
      case ok: True
      let ?s2 = "local_op (WriteText (os_path_join p ''run_script.sh'') (runner_script n))
                   (remote (Exec (venv_cmd n)) s)"
      let ?t2 = "local_op (WriteText (os_path_join p ''run_script.sh'') (runner_script n))
                   (remote (Exec (venv_cmd n)) t)"
      let ?us = "upload_file w self (os_path_join p ''run_script.sh'') (remote_runner_path_of n) ?s2"
      let ?ut = "upload_file w self (os_path_join p ''run_script.sh'') (remote_runner_path_of n) ?t2"
      have u: "fst ?us = fst ?ut \<and> rlog (snd ?us) = rlog (snd ?ut) \<and> llog (snd ?us) = llog (snd ?ut)"
        using assms by (intro upload_file_logs) simp_all
      have es: "setup_environment w self p n s =
          (case ?us of (Inl e, s3) \<Rightarrow> (Raise e, s3)
           | (Inr up, s3) \<Rightarrow> if \<not> up then (Return False, s3)
                else run_setup_commands w self [chmod_cmd n, dos2unix_cmd n] s3)"
        using ok Inr pre assms by (simp add: setup_environment_def run_remote_command_def Let_def)
      have et: "setup_environment w self p n t =
          (case ?ut of (Inl e, s3) \<Rightarrow> (Raise e, s3)
           | (Inr up, s3) \<Rightarrow> if \<not> up then (Return False, s3)
                else run_setup_commands w self [chmod_cmd n, dos2unix_cmd n] s3)"
        using ok Inr pre assms by (simp add: setup_environment_def run_remote_command_def Let_def)
      obtain ys s3 where us: "?us = (ys, s3)" by fastforce
      obtain yt t3 where ut: "?ut = (yt, t3)" by fastforce
      from u us ut have same: "ys = yt" "rlog s3 = rlog t3" "llog s3 = llog t3" by simp_all
      show ?thesis
      proof (cases yt)
        case (Inl e)
        with same us ut show ?thesis unfolding es et by simp
      next
        case (Inr up)
        with same us ut run_setup_commands_logs [OF same(2,3), of w self "[chmod_cmd n, dos2unix_cmd n]"]
        show ?thesis unfolding es et by (cases up) simp_all
      qed
    qed
  qed
qed

lemma update_crontab_logs:
  assumes "rlog s = rlog t" and "llog s = llog t"
  shows "fst (update_crontab w self p n s) = fst (update_crontab w self p n t)
       \<and> rlog (snd (update_crontab w self p n s)) = rlog (snd (update_crontab w self p n t))
       \<and> llog (snd (update_crontab w self p n s)) = llog (snd (update_crontab w self p n t))"
proof (cases "path_exists w (os_path_join p ''cron.txt'') \<and> ssh self \<noteq> Absent")
  case False
  with assms show ?thesis
    by (auto simp: update_crontab_def run_remote_command_def Let_def split: sum.splits)
next
  case pre: True
  show ?thesis
  proof (cases "read_text w (os_path_join p ''cron.txt'')")
    case (Inl e)
    with pre assms show ?thesis by (simp add: update_crontab_def)
  next
    case (Inr content)
    with pre assms show ?thesis
      by (cases "exec_command w (rlog t) (cron_cmd (py_strip content) n)")
         (simp_all add: update_crontab_def run_remote_command_def Let_def)
  qed
qed

lemma provision_tail_logs:
  assumes "rlog s = rlog t" and "llog s = llog t"
  shows "fst (provision_tail w self p n s) = fst (provision_tail w self p n t)
       \<and> rlog (snd (provision_tail w self p n s)) = rlog (snd (provision_tail w self p n t))
       \<and> llog (snd (provision_tail w self p n s)) = llog (snd (provision_tail w self p n t))"
proof -
  obtain ys s1 where fs: "setup_environment w self p n s = (ys, s1)" by fastforce
  obtain yt t1 where ft: "setup_environment w self p n t = (yt, t1)" by fastforce
  from setup_environment_logs [OF assms, of w self p n] fs ft
  have same: "ys = yt" "rlog s1 = rlog t1" "llog s1 = llog t1" by simp_all
  show ?thesis
  proof (cases yt)
    case Next
    with same fs ft update_crontab_logs [OF same(2,3), of w self p n] show ?thesis
      by (simp add: provision_tail_def and_then_def)
  next
    case (Return b)
    with same fs ft show ?thesis by (simp add: provision_tail_def and_then_def)
  next
    case (Raise e)
    with same fs ft show ?thesis by (simp add: provision_tail_def and_then_def)
  qed
qed

lemma finish_logs:
  "rlog (snd (finish n (z, u))) = rlog u \<and> llog (snd (finish n (z, u))) = llog u
   \<and> fst (finish n (z, u)) = (case z of Next \<Rightarrow> Inr True | Return b \<Rightarrow> Inr b | Raise e \<Rightarrow> Inl e)"
  by (cases z) (simp_all add: finish_def)

lemma run_remote_command_stdin: "stdin (snd (run_remote_command w self c s)) = stdin s"
  by (simp add: run_remote_command_def)

lemma upload_file_stdin: "stdin (snd (upload_file w self l r s)) = stdin s"
  by (simp add: upload_file_def upload_file_try_def run_remote_command_def Let_def
      split: sum.splits option.splits)

lemma create_directory_stdin: "stdin (snd (create_directory w self n s)) = stdin s"
  by (simp add: create_directory_def run_remote_command_def Let_def split: sum.splits)

lemma set_permissions_stdin: "stdin (snd (set_permissions w self n s)) = stdin s"
  by (simp add: set_permissions_def run_remote_command_def Let_def split: sum.splits)

lemma copy_dir_files_stdin: "stdin (snd (copy_dir_files w self p n root files s)) = stdin s"
proof (induction files arbitrary: s)
  case Nil
  then show ?case by simp
next
  case (Cons fl files)
  let ?u = "upload_file w self (os_path_join root fl)
              (''/opt/'' @ n @ ''/'' @ relpath w (os_path_join root fl) p) s"
  obtain y s1 where u: "?u = (y, s1)" by fastforce
  with upload_file_stdin [of w self "os_path_join root fl"
      "''/opt/'' @ n @ ''/'' @ relpath w (os_path_join root fl) p" s]
  have s1: "stdin s1 = stdin s" by simp
  from u s1 Cons.IH [of s1] show ?case
    by (cases y) (simp_all add: Let_def)
qed

lemma copy_tree_stdin: "stdin (snd (copy_tree w self p n dirs s)) = stdin s"
proof (induction dirs arbitrary: s)
  case Nil
  then show ?case by simp
next
  case (Cons d dirs)
  obtain root files where d: "d = (root, files)" by (cases d)
  obtain y s1 where c: "copy_dir_files w self p n root files s = (y, s1)" by fastforce
  with copy_dir_files_stdin [of w self p n root files s] have "stdin s1 = stdin s" by simp
  with c d Cons.IH [of s1] show ?case by (cases y) simp_all
qed

lemma before_secrets_stdin:
  "stdin (snd (and_then (create_directory w self n)
                 (and_then (set_permissions w self n) (copy_files w self p n)) s)) = stdin s"
proof -
  obtain y1 s1 where c: "create_directory w self n s = (y1, s1)" by fastforce
  with create_directory_stdin [of w self n s] have 1: "stdin s1 = stdin s" by simp
  obtain y2 s2 where q: "set_permissions w self n s1 = (y2, s2)" by fastforce
  with set_permissions_stdin [of w self n s1] 1 have 2: "stdin s2 = stdin s" by simp
  have 3: "stdin (snd (copy_files w self p n s2)) = stdin s"
    using copy_tree_stdin [of w self p n "os_walk w p" s2] 2 by (simp add: copy_files_def)
  from c q 1 2 3 show ?thesis
    by (cases y1; cases y2) (simp_all add: and_then_def split: prod.splits)
qed

lemma handle_env_file_declined:
  assumes "\<not> path_exists w (env_file_path_of self n)" and "stdin s = answer # rest"
    and "py_strip (py_lower answer) \<noteq> ''y''"
  shows "handle_env_file w self n p s =
           (Inr True,
            (print ''Would you like to create one now? (y/n): ''
              (print (''No .env file found for '' @ n @ '' at '' @ env_file_path_of self n) s))
            \<lparr>stdin := rest\<rparr>)"
  using assms by (simp add: handle_env_file_def input_def Let_def)

text \<open>
  Claim C6. When the local secrets file of the target does not exist and the operator's
  answer to the prompt is not \<^verbatim>\<open>y\<close> after lowering and stripping (an answer \<^verbatim>\<open>Y\<close>
  followed by a no-break space is \<^verbatim>\<open>y\<close>, as in Python), \<open>handle_env_file\<close>
  returns \<open>True\<close>, having only printed two lines and read the answer. The deployment then
  has the result, the remote operations and the local operations of the deployment
  without the secrets step.
\<close>

theorem declined_secrets_is_no_error:
  assumes absent: "\<not> path_exists w (env_file_path_of self n)"
    and inp: "stdin s = answer # rest"
    and no: "py_strip (py_lower answer) \<noteq> ''y''"
  shows "handle_env_file w self n p s =
           (Inr True,
            (print ''Would you like to create one now? (y/n): ''
              (print (''No .env file found for '' @ n @ '' at '' @ env_file_path_of self n) s))
            \<lparr>stdin := rest\<rparr>)
       \<and> fst (deploy_script w self p n s) = fst (deploy_script_without_env w self p n s)
       \<and> rlog (snd (deploy_script w self p n s)) = rlog (snd (deploy_script_without_env w self p n s))
       \<and> llog (snd (deploy_script w self p n s)) = llog (snd (deploy_script_without_env w self p n s))"
proof -
  let ?A = "and_then (create_directory w self n)
              (and_then (set_permissions w self n) (copy_files w self p n))"
  let ?s0 = "print (''\<newline>Deploying '' @ n @ ''...'') s"
  have d1: "deploy_script w self p n s =
      finish n (and_then ?A (and_then (env_step w self p n) (provision_tail w self p n)) ?s0)"
    by (simp add: deploy_script_def and_then_def split: prod.splits outcome.splits)
  have d2: "deploy_script_without_env w self p n s =
      finish n (and_then ?A (provision_tail w self p n) ?s0)"
    by (simp add: deploy_script_without_env_def and_then_def split: prod.splits outcome.splits)
  obtain y s3 where a: "?A ?s0 = (y, s3)" by fastforce
  have st: "stdin s3 = answer # rest"
    using before_secrets_stdin [of w self n p ?s0] a inp by simp
  show ?thesis
  proof (cases y)
    case Next
    let ?s3' = "(print ''Would you like to create one now? (y/n): ''
                  (print (''No .env file found for '' @ n @ '' at '' @ env_file_path_of self n) s3))
                \<lparr>stdin := rest\<rparr>"
    have e: "env_step w self p n s3 = (Next, ?s3')"
      using handle_env_file_declined [OF absent st no, of p] by (simp add: env_step_def)
    obtain z1 u1 where t1: "provision_tail w self p n ?s3' = (z1, u1)" by fastforce
    obtain z2 u2 where t2: "provision_tail w self p n s3 = (z2, u2)" by fastforce
    have "rlog ?s3' = rlog s3" and "llog ?s3' = llog s3" by simp_all
    from provision_tail_logs [OF this, of w self p n] t1 t2
    have same: "z1 = z2" "rlog u1 = rlog u2" "llog u1 = llog u2" by simp_all
    have r1: "deploy_script w self p n s = finish n (z1, u1)"
      using a Next e t1 by (simp add: d1 and_then_def)
    have r2: "deploy_script_without_env w self p n s = finish n (z2, u2)"
      using a Next t2 by (simp add: d2 and_then_def)
    from same show ?thesis
      unfolding r1 r2 using handle_env_file_declined [OF absent inp no, of p]
      by (simp add: finish_logs)
  next
    case (Return b)
    with a have "deploy_script w self p n s = deploy_script_without_env w self p n s"
      by (simp add: d1 d2 and_then_def)
    with handle_env_file_declined [OF absent inp no, of p] show ?thesis by simp
  next
    case (Raise e)
    with a have "deploy_script w self p n s = deploy_script_without_env w self p n s"
      by (simp add: d1 d2 and_then_def)
    with handle_env_file_declined [OF absent inp no, of p] show ?thesis by simp
  qed
qed

lemma answer_with_no_break_space: "py_strip (py_lower (''Y'' @ [CHR 0xC2, CHR 0xA0])) = ''y''"
  by code_simp

theorem declined_secrets_is_no_error_witness:
  "\<not> path_exists world_plain_tree (env_file_path_of manager_live ''app'')
   \<and> py_strip (py_lower ''n'') \<noteq> ''y''
   \<and> handle_env_file world_plain_tree manager_live ''app'' ''/tmp/ab'' (io0 [''n'']) =
       (Inr True,
        \<lparr>out = [''No .env file found for app at /home/op/.script_envs/app.env'',
                ''Would you like to create one now? (y/n): ''],
         rlog = [], llog = [], stdin = []\<rparr>)
   \<and> fst (deploy_script world_plain_tree manager_live ''/tmp/ab'' ''app'' (io0 [''n''])) = Inr True
   \<and> fst (deploy_script_without_env world_plain_tree manager_live ''/tmp/ab'' ''app'' (io0 [''n'']))
       = Inr True
   \<and> rlog (snd (deploy_script_without_env world_plain_tree manager_live ''/tmp/ab'' ''app''
                  (io0 [''n''])))
       = [Exec (create_dir_cmd manager_live ''app''), Exec (chown_cmd manager_live ''app''),
          Exec ''mkdir -p /opt/app'', Put ''/tmp/ab/main.py'' ''/opt/app/main.py'']"
  using declined_secrets_is_no_error [of world_plain_tree manager_live "''app''" "io0 [''n'']"
      "''n''" "[]" "''/tmp/ab''"]
  by (simp add: deploy_eval deploy_script_without_env_def world_plain_tree_def)

end
